theory Spec2Isabelle
  imports Complex_Main
begin

section \<open>Values shared by the whole development\<close>

text \<open>
  The application is an orchestration layer over HTTP and RPC endpoints. Its functions are
  embedded as pure functions that take the outcome of every awaited external call from an
  explicit environment and return, next to their result, the list of effects they perform.
  A JavaScript string is a \<open>string\<close> whose characters are its code units (code units
  below 256; the identifiers, hexadecimal strings and messages of this program are ASCII).
\<close>

text \<open>
  JavaScript data: what \<open>JSON.parse\<close> returns, and the \<open>bigint\<close> and \<open>undefined\<close> values
  the program handles besides. A number is kept by its numerical value.
\<close>

datatype js =
    JUndefined
  | JNull
  | JBool bool
  | JNum rat
  | JBig int
  | JStr string
  | JArr "js list"
  | JObj "(string \<times> js) list"

text \<open>Thrown values: the constructor of the error object and its message.\<close>

datatype exn =
    Error string
  | TypeError string
  | RangeError string
  | SyntaxError string
  | Thrown string

text \<open>\<open>error instanceof Error ? error.message : fallback\<close>\<close>

fun message_or :: "string \<Rightarrow> exn \<Rightarrow> string" where
  "message_or fallback (Error m) = m"
| "message_or fallback (TypeError m) = m"
| "message_or fallback (RangeError m) = m"
| "message_or fallback (SyntaxError m) = m"
| "message_or fallback (Thrown v) = fallback"

subsection \<open>Numbers in text\<close>

definition digit_char :: "nat \<Rightarrow> char" where
  "digit_char d = ''0123456789abcdef'' ! d"

text \<open>\<open>Number.prototype.toString(radix)\<close> on a non-negative integer, for a radix from 2 to 16.\<close>

fun toString_radix :: "nat \<Rightarrow> nat \<Rightarrow> string" where
  "toString_radix r n =
     (if r < 2 \<or> n < r then [digit_char n]
      else toString_radix r (n div r) @ [digit_char (n mod r)])"

declare toString_radix.simps [simp del]

definition toString16 :: "nat \<Rightarrow> string" where
  "toString16 n = toString_radix 16 n"

text \<open>The decimal text a template literal gives an integer.\<close>

definition string_of_nat :: "nat \<Rightarrow> string" where
  "string_of_nat n = toString_radix 10 n"

definition string_of_int :: "int \<Rightarrow> string" where
  "string_of_int i = (if i < 0 then CHR ''-'' # string_of_nat (nat (- i)) else string_of_nat (nat i))"

section \<open>\<open>src/lib/utils.ts\<close>: \<open>toHex\<close>\<close>

text \<open>\<open>String.prototype.padEnd(targetLength, c)\<close> with a one-character pad string.\<close>

definition padEnd :: "string \<Rightarrow> nat \<Rightarrow> char \<Rightarrow> string" where
  "padEnd s targetLength c = s @ replicate (targetLength - length s) c"

text \<open>The \<open>for\<close> loop of \<open>toHex\<close>: \<open>result += data.charCodeAt(i).toString(16)\<close>.\<close>

fun toHex_loop :: "string \<Rightarrow> string \<Rightarrow> string" where
  "toHex_loop result [] = result"
| "toHex_loop result (c # cs) = toHex_loop (result @ toString16 (of_char c)) cs"

definition toHex :: "string \<Rightarrow> string" where
  "toHex data = ''0x'' @ padEnd (toHex_loop [] data) 64 CHR ''0''"

definition is_hex_char :: "char \<Rightarrow> bool" where
  "is_hex_char c = (c \<in> set ''0123456789abcdef'')"

section \<open>The workflow component: steps\<close>

datatype status = pending | in_progress | completed | error

text \<open>\<open>string | React.ReactNode\<close>: a node is kept by its markup.\<close>

datatype node = Text string | ReactNode string

record step_details =
  whatHappens :: string
  technicalDetails :: string
  apiEndpoint :: "node option"
  requestBody_details :: "(string \<times> js) list option"
  responseBody_details :: "(string \<times> js) list option"
  curlCommand :: "string option"

record FdcStep =
  id_step :: string
  title :: string
  description :: node
  status_step :: status
  data_step :: "(string \<times> js) list option"
  error_step :: "string option"
  details :: "step_details option"

text \<open>
  \<open>updateStepStatus\<close> is \<open>setSteps(prev => prev.map(step => step.id === stepId ?
  {...step, status, data, error} : step))\<close>; the function below is the updater applied to
  \<open>prev\<close>. An argument left out at the call is \<open>undefined\<close>, here \<open>None\<close>.
\<close>

definition updateStepStatus ::
  "string \<Rightarrow> status \<Rightarrow> (string \<times> js) list option \<Rightarrow> string option \<Rightarrow> FdcStep list \<Rightarrow> FdcStep list" where
  "updateStepStatus stepId st d e prev =
     map (\<lambda>step. if id_step step = stepId
                  then step\<lparr>status_step := st, data_step := d, error_step := e\<rparr>
                  else step) prev"

section \<open>JavaScript operations the program uses\<close>

text \<open>
  Property access \<open>v.k\<close>, for the property names this program reads (none of them is a
  built-in property of strings or arrays): it throws on \<open>null\<close> and \<open>undefined\<close>, with the
  message of V8, reads an own property of an object, and is \<open>undefined\<close> everywhere else.
\<close>

fun get :: "js \<Rightarrow> string \<Rightarrow> exn + js" where
  "get JUndefined k =
     Inl (TypeError (''Cannot read properties of undefined (reading '' @ [CHR 0x27] @ k @ [CHR 0x27] @ '')''))"
| "get JNull k =
     Inl (TypeError (''Cannot read properties of null (reading '' @ [CHR 0x27] @ k @ [CHR 0x27] @ '')''))"
| "get (JObj kvs) k = Inr (case map_of kvs k of None \<Rightarrow> JUndefined | Some v \<Rightarrow> v)"
| "get v k = Inr JUndefined"

text \<open>Truthiness, as \<open>!v\<close>, \<open>&&\<close> and \<open>||\<close> read it.\<close>

fun truthy :: "js \<Rightarrow> bool" where
  "truthy JUndefined = False"
| "truthy JNull = False"
| "truthy (JBool b) = b"
| "truthy (JNum r) = (r \<noteq> 0)"
| "truthy (JBig i) = (i \<noteq> 0)"
| "truthy (JStr s) = (s \<noteq> [])"
| "truthy (JArr vs) = True"
| "truthy (JObj kvs) = True"

fun isArray :: "js \<Rightarrow> bool" where
  "isArray (JArr vs) = True"
| "isArray v = False"

text \<open>Sequencing of computations that may throw.\<close>

definition and_then :: "exn + 'a \<Rightarrow> ('a \<Rightarrow> exn + 'b) \<Rightarrow> exn + 'b" where
  "and_then x f = (case x of Inl e \<Rightarrow> Inl e | Inr v \<Rightarrow> f v)"

text \<open>
  An object literal whose property values are evaluated from left to right: the first one
  that throws ends the evaluation.
\<close>

fun object_of :: "(string \<times> (exn + js)) list \<Rightarrow> exn + (string \<times> js) list" where
  "object_of [] = Inr []"
| "object_of ((k, x) # rest) =
     (case x of
        Inl e \<Rightarrow> Inl e
      | Inr v \<Rightarrow> (case object_of rest of Inl e \<Rightarrow> Inl e | Inr kvs \<Rightarrow> Inr ((k, v) # kvs)))"

definition literal :: "(string \<times> (exn + js)) list \<Rightarrow> exn + js" where
  "literal props = and_then (object_of props) (\<lambda>kvs. Inr (JObj kvs))"

section \<open>HTTP, RPC and the effects of the program\<close>

text \<open>
  A resolved \<open>fetch\<close>: the status line, the headers and the outcome of \<open>response.json()\<close>.
  \<open>response.ok\<close> is the status being in the range 200 to 299.
\<close>

record http_response =
  status_http :: nat
  statusText :: string
  headers :: "(string \<times> string) list"
  json :: "exn + js"

definition ok :: "http_response \<Rightarrow> bool" where
  "ok response = (200 \<le> status_http response \<and> status_http response \<le> 299)"

text \<open>The outcome of an awaited \<open>fetch\<close>: rejected, or resolved with a response.\<close>

type_synonym fetch_result = "exn + http_response"

text \<open>
  The public clients of the program: the shared one of \<open>src/lib/publicClient.ts\<close>, the one of
  wagmi's \<open>usePublicClient\<close> and the component's own fallback.
\<close>

datatype client = SharedClient | WagmiClient | FallbackClient

text \<open>
  What the program does to the world, in the order it does it: timers, HTTP requests, RPC
  reads, the wallet transaction, and the state updates of the React component.
\<close>

datatype effect =
    Sleep nat
  | Fetch string "(string \<times> string) list" js
  | GetBlock client js
  | ReadContract client string string "js list"
  | RequestAttestation string "js list" js
  | UpdateStepStatus string status "(string \<times> js) list option" "string option"
  | ResetSteps
  | SetIsLoading bool
  | SetError "string option"
  | SetSuccess "string option"
  | SetCurrentAttestationData js
  | SetCurrentAttestationStep string
  | SetProofData js
  | SetVerificationResult js
  | ExpandStep string

text \<open>An RPC read: the client, the contract address, the function name and the arguments.\<close>

type_synonym read_oracle = "client \<Rightarrow> string \<Rightarrow> string \<Rightarrow> js list \<Rightarrow> exn + js"

record FdcContractAddresses =
  fdcHub :: string
  fdcRequestFeeConfigurations :: string
  flareSystemsManager :: string
  fdcVerification :: string

section \<open>\<open>src/lib/fdcUtils.ts\<close>\<close>

subsection \<open>\<open>postRequestToDALayer\<close> and \<open>retrieveDataAndProof\<close>\<close>

definition da_headers :: "string \<Rightarrow> (string \<times> string) list" where
  "da_headers apiKey =
     [(''accept'', ''application/json''), (''x-api-key'', apiKey), (''Content-Type'', ''application/json'')]"

text \<open>\<open>postRequestToDALayer\<close>, given the outcome of its \<open>fetch\<close>.\<close>

definition postRequestToDALayer :: "fetch_result \<Rightarrow> exn + js" where
  "postRequestToDALayer fetched =
     (case fetched of
        Inl e \<Rightarrow> Inl e
      | Inr response \<Rightarrow>
          if \<not> ok response
          then Inl (Error (''DA Layer request failed: '' @ string_of_nat (status_http response)
                           @ '' '' @ statusText response))
          else json response)"

text \<open>\<open>proof.response && proof.proof && Array.isArray(proof.proof)\<close>\<close>

definition has_proof :: "js \<Rightarrow> exn + bool" where
  "has_proof proof =
     and_then (get proof ''response'') (\<lambda>r.
       if \<not> truthy r then Inr False
       else and_then (get proof ''proof'') (\<lambda>p.
         if \<not> truthy p then Inr False else Inr (isArray p)))"

text \<open>
  The \<open>while\<close> loop of \<open>retrieveDataAndProof\<close>, over the replies the Data Availability Layer
  gives to the successive requests. When the replies run out with no proof among them the
  function has not returned: the result is \<open>None\<close>.
\<close>

fun poll :: "effect \<Rightarrow> fetch_result list \<Rightarrow> (exn + js) option \<times> effect list" where
  "poll request [] = (None, [Sleep 10000, request])"
| "poll request (fetched # replies) =
     (case postRequestToDALayer fetched of
        Inl e \<Rightarrow> (Some (Inl e), [Sleep 10000, request])
      | Inr proof \<Rightarrow>
          (case has_proof proof of
             Inl e \<Rightarrow> (Some (Inl e), [Sleep 10000, request])
           | Inr True \<Rightarrow> (Some (Inr proof), [Sleep 10000, request])
           | Inr False \<Rightarrow>
               (case poll request replies of (r, effects) \<Rightarrow> (r, [Sleep 10000, request] @ effects))))"

text \<open>
  \<open>abiEncodedRequest\<close> is typed \<open>string\<close>; the component passes the verifier's value under a
  type assertion, so the embedding takes any value.
\<close>

definition da_request :: "string \<Rightarrow> js \<Rightarrow> js \<Rightarrow> string \<Rightarrow> effect" where
  "da_request url abiEncodedRequest roundId apiKey =
     Fetch url (da_headers apiKey)
       (JObj [(''votingRoundId'', roundId), (''requestBytes'', abiEncodedRequest)])"

definition retrieveDataAndProof ::
  "string \<Rightarrow> js \<Rightarrow> js \<Rightarrow> string \<Rightarrow> fetch_result list \<Rightarrow> (exn + js) option \<times> effect list" where
  "retrieveDataAndProof url abiEncodedRequest roundId apiKey replies =
     (let request = da_request url abiEncodedRequest roundId apiKey;
          first = [Sleep 30000, Sleep 10000, request]
      in case replies of
           [] \<Rightarrow> (None, first)
         | fetched # rest \<Rightarrow>
             (case postRequestToDALayer fetched of
                Inl e \<Rightarrow> (Some (Inl e), first)
              | Inr proof \<Rightarrow>
                  (case has_proof proof of
                     Inl e \<Rightarrow> (Some (Inl e), first)
                   | Inr True \<Rightarrow> (Some (Inr proof), first)
                   | Inr False \<Rightarrow>
                       (case poll request rest of (r, effects) \<Rightarrow> (r, first @ effects)))))"

text \<open>
  The predicate of a usable proof: both fields are there and \<open>proof\<close> is an array. The
  check above reads the fields by their truthiness, which is more than their being there.
\<close>

definition present :: "exn + js \<Rightarrow> bool" where
  "present x = (case x of Inl e \<Rightarrow> False | Inr v \<Rightarrow> v \<noteq> JUndefined)"

definition proof_predicate :: "js \<Rightarrow> bool" where
  "proof_predicate v =
     (present (get v ''response'') \<and> present (get v ''proof'')
      \<and> (case get v ''proof'' of Inl e \<Rightarrow> False | Inr p \<Rightarrow> isArray p))"

text \<open>A reply that is a well-formed answer and does not pass the check: the poll goes on.\<close>

definition not_yet :: "fetch_result \<Rightarrow> bool" where
  "not_yet fetched =
     (case postRequestToDALayer fetched of Inl e \<Rightarrow> False | Inr proof \<Rightarrow> has_proof proof = Inr False)"

subsection \<open>\<open>retrieveDataAndProofWithRetry\<close>\<close>

definition retry_message :: "int \<Rightarrow> exn" where
  "retry_message attempts =
     Error (''Failed to retrieve data and proofs after '' @ string_of_int attempts @ '' attempts'')"

text \<open>
  The \<open>for\<close> loop from index \<open>i\<close> on. \<open>retrieve i\<close> is the call of \<open>retrieveDataAndProof\<close>
  made in iteration \<open>i\<close>: its outcome and its effects. \<open>attempts\<close> is an integer count.
\<close>

function retry_from ::
  "(nat \<Rightarrow> (exn + js) option \<times> effect list) \<Rightarrow> int \<Rightarrow> nat \<Rightarrow> (exn + js) option \<times> effect list" where
  "retry_from retrieve attempts i =
     (if int i < attempts then
        (case retrieve i of
           (None, effects) \<Rightarrow> (None, effects)
         | (Some (Inr v), effects) \<Rightarrow> (Some (Inr v), effects)
         | (Some (Inl e), effects) \<Rightarrow>
             (case retry_from retrieve attempts (Suc i) of
                (r, later) \<Rightarrow> (r, effects @ [Sleep 20000] @ later)))
      else (Some (Inl (retry_message attempts)), []))"
  by pat_completeness auto
termination
  by (relation "measure (\<lambda>(retrieve, attempts, i). nat (attempts - int i))") auto

declare retry_from.simps [simp del]

text \<open>
  \<open>replies i\<close> are the replies of the Data Availability Layer during the call of iteration
  \<open>i\<close>, and \<open>attempt \<dots> i\<close> is that call. The parameter \<open>attempts\<close> defaults to 10.
\<close>

definition attempt ::
  "string \<Rightarrow> js \<Rightarrow> js \<Rightarrow> string \<Rightarrow> (nat \<Rightarrow> fetch_result list) \<Rightarrow> nat
     \<Rightarrow> (exn + js) option \<times> effect list" where
  "attempt url abiEncodedRequest roundId apiKey replies i =
     retrieveDataAndProof url abiEncodedRequest roundId apiKey (replies i)"

definition retrieveDataAndProofWithRetry ::
  "string \<Rightarrow> js \<Rightarrow> js \<Rightarrow> string \<Rightarrow> int option \<Rightarrow> (nat \<Rightarrow> fetch_result list)
     \<Rightarrow> (exn + js) option \<times> effect list" where
  "retrieveDataAndProofWithRetry url abiEncodedRequest roundId apiKey attempts replies =
     retry_from (attempt url abiEncodedRequest roundId apiKey replies)
       (case attempts of None \<Rightarrow> 10 | Some n \<Rightarrow> n) 0"

definition retrievePaymentDataAndProofWithRetry ::
  "string \<Rightarrow> js \<Rightarrow> js \<Rightarrow> string \<Rightarrow> int option \<Rightarrow> (nat \<Rightarrow> fetch_result list)
     \<Rightarrow> (exn + js) option \<times> effect list" where
  "retrievePaymentDataAndProofWithRetry url abiEncodedRequest roundId apiKey attempts replies =
     retrieveDataAndProofWithRetry url abiEncodedRequest roundId apiKey attempts replies"

subsection \<open>\<open>FDC_CONSTANTS\<close>\<close>

definition VERIFIER_URL_TESTNET :: string where
  "VERIFIER_URL_TESTNET = ''https://fdc-verifiers-testnet.flare.network/''"

definition VERIFIER_API_KEY_TESTNET :: string where
  "VERIFIER_API_KEY_TESTNET = ''00000000-0000-0000-0000-000000000000''"

definition DA_LAYER_API_KEY :: string where
  "DA_LAYER_API_KEY = ''00000000-0000-0000-0000-000000000000''"

definition DA_LAYER_API_URL :: string where
  "DA_LAYER_API_URL = ''/api/proof-request''"

definition URL_TYPE_BASE :: string where
  "URL_TYPE_BASE = ''xrp''"

definition SOURCE_ID_BASE :: string where
  "SOURCE_ID_BASE = ''testXRP''"

subsection \<open>\<open>prepareAttestationRequestBase\<close>\<close>

definition verifier_request :: "string \<Rightarrow> string \<Rightarrow> js \<Rightarrow> js" where
  "verifier_request attestationTypeBase sourceIdBase body =
     JObj [(''attestationType'', JStr (toHex attestationTypeBase)),
           (''sourceId'', JStr (toHex sourceIdBase)),
           (''requestBody'', body)]"

definition not_OK :: "http_response \<Rightarrow> exn" where
  "not_OK response =
     Error (''Response status is not OK, status '' @ string_of_nat (status_http response)
            @ '' '' @ statusText response @ [CHR 0x0A])"

text \<open>\<open>prepareAttestationRequestBase\<close>, given the outcome of its \<open>fetch\<close>.\<close>

definition prepareAttestationRequestBase ::
  "string \<Rightarrow> string \<Rightarrow> string \<Rightarrow> string \<Rightarrow> js \<Rightarrow> fetch_result \<Rightarrow> (exn + js) \<times> effect list" where
  "prepareAttestationRequestBase url apiKey attestationTypeBase sourceIdBase body fetched =
     (let request = verifier_request attestationTypeBase sourceIdBase body;
          sent = [Fetch url [(''X-API-KEY'', apiKey), (''Content-Type'', ''application/json'')] request]
      in case fetched of
           Inl e \<Rightarrow> (Inl e, sent)
         | Inr response \<Rightarrow>
             if status_http response \<noteq> 200 then (Inl (not_OK response), sent)
             else (json response, sent))"

text \<open>The parameters \<open>inUtxo\<close> and \<open>utxo\<close> default to \<open>'0'\<close>.\<close>

definition preparePaymentAttestationRequest ::
  "string \<Rightarrow> string option \<Rightarrow> string option \<Rightarrow> fetch_result \<Rightarrow> (exn + js) \<times> effect list" where
  "preparePaymentAttestationRequest transactionId inUtxo utxo fetched =
     (let body = JObj [(''transactionId'', JStr transactionId),
                       (''inUtxo'', JStr (case inUtxo of None \<Rightarrow> ''0'' | Some u \<Rightarrow> u)),
                       (''utxo'', JStr (case utxo of None \<Rightarrow> ''0'' | Some u \<Rightarrow> u))];
          url = VERIFIER_URL_TESTNET @ ''verifier/'' @ URL_TYPE_BASE @ ''/Payment/prepareRequest''
      in prepareAttestationRequestBase url VERIFIER_API_KEY_TESTNET ''Payment'' SOURCE_ID_BASE
           body fetched)"

subsection \<open>\<open>getFdcRequestFee\<close> and \<open>submitAttestationRequest\<close>\<close>

definition getFdcRequestFee ::
  "read_oracle \<Rightarrow> string \<Rightarrow> FdcContractAddresses option \<Rightarrow> (exn + js) \<times> effect list" where
  "getFdcRequestFee readContract abiEncodedRequest fdcAddresses =
     (case fdcAddresses of
        None \<Rightarrow> (Inl (Error ''FDC Request Fee Configurations address not loaded''), [])
      | Some a \<Rightarrow>
          if fdcRequestFeeConfigurations a = []
          then (Inl (Error ''FDC Request Fee Configurations address not loaded''), [])
          else (readContract SharedClient (fdcRequestFeeConfigurations a) ''getRequestFee''
                  [JStr abiEncodedRequest],
                [ReadContract SharedClient (fdcRequestFeeConfigurations a) ''getRequestFee''
                  [JStr abiEncodedRequest]]))"

text \<open>
  \<open>requestAttestation\<close> is the caller's \<open>writeContract\<close>: the call hands the transaction to
  the wallet and is not awaited.
\<close>

definition submitAttestationRequest ::
  "read_oracle \<Rightarrow> string \<Rightarrow> FdcContractAddresses option \<Rightarrow> (exn + unit) \<times> effect list" where
  "submitAttestationRequest readContract abiEncodedRequest fdcAddresses =
     (case fdcAddresses of
        None \<Rightarrow> (Inl (Error ''FDC Hub address not loaded''), [])
      | Some a \<Rightarrow>
          if fdcHub a = [] then (Inl (Error ''FDC Hub address not loaded''), [])
          else (case getFdcRequestFee readContract abiEncodedRequest fdcAddresses of
                  (Inl e, reads) \<Rightarrow> (Inl e, reads)
                | (Inr requestFee, reads) \<Rightarrow>
                    (Inr (), reads @ [RequestAttestation (fdcHub a) [JStr abiEncodedRequest] requestFee])))"

subsection \<open>\<open>verifyPayment\<close>\<close>

text \<open>
  \<open>BigInt\<close> is the built-in conversion, a parameter of the embedding: it returns the integer
  or throws. \<open>big x\<close> is \<open>BigInt(x)\<close> for an operand \<open>x\<close> whose evaluation may throw itself.
\<close>

definition big :: "(js \<Rightarrow> exn + int) \<Rightarrow> exn + js \<Rightarrow> exn + js" where
  "big BigInt x = and_then x (\<lambda>v. and_then (BigInt v) (\<lambda>n. Inr (JBig n)))"

definition path2 :: "js \<Rightarrow> string \<Rightarrow> string \<Rightarrow> exn + js" where
  "path2 v k1 k2 = and_then (get v k1) (\<lambda>w. get w k2)"

text \<open>The argument of the contract call, its properties evaluated in the order of the source.\<close>

definition verifyPayment_argument :: "(js \<Rightarrow> exn + int) \<Rightarrow> js \<Rightarrow> js \<Rightarrow> exn + js" where
  "verifyPayment_argument BigInt response proof =
     literal
       [(''merkleProof'', Inr proof),
        (''data'', literal
          [(''attestationType'', get response ''attestationType''),
           (''sourceId'', get response ''sourceId''),
           (''votingRound'', big BigInt (get response ''votingRound'')),
           (''lowestUsedTimestamp'', big BigInt (get response ''lowestUsedTimestamp'')),
           (''requestBody'', literal
             [(''transactionId'', path2 response ''requestBody'' ''transactionId''),
              (''inUtxo'', big BigInt (path2 response ''requestBody'' ''inUtxo'')),
              (''utxo'', big BigInt (path2 response ''requestBody'' ''utxo''))]),
           (''responseBody'', literal
             [(''blockNumber'', big BigInt (path2 response ''responseBody'' ''blockNumber'')),
              (''blockTimestamp'', big BigInt (path2 response ''responseBody'' ''blockTimestamp'')),
              (''sourceAddressHash'', path2 response ''responseBody'' ''sourceAddressHash''),
              (''sourceAddressesRoot'', path2 response ''responseBody'' ''sourceAddressesRoot''),
              (''receivingAddressHash'', path2 response ''responseBody'' ''receivingAddressHash''),
              (''intendedReceivingAddressHash'',
                 path2 response ''responseBody'' ''intendedReceivingAddressHash''),
              (''spentAmount'', big BigInt (path2 response ''responseBody'' ''spentAmount'')),
              (''intendedSpentAmount'',
                 big BigInt (path2 response ''responseBody'' ''intendedSpentAmount'')),
              (''receivedAmount'', big BigInt (path2 response ''responseBody'' ''receivedAmount'')),
              (''intendedReceivedAmount'',
                 big BigInt (path2 response ''responseBody'' ''intendedReceivedAmount'')),
              (''standardPaymentReference'',
                 path2 response ''responseBody'' ''standardPaymentReference''),
              (''oneToOne'', path2 response ''responseBody'' ''oneToOne''),
              (''status'', path2 response ''responseBody'' ''status'')])])]"

text \<open>\<open>!proofData.response || !proofData.proof\<close>\<close>

definition incomplete :: "js \<Rightarrow> exn + bool" where
  "incomplete proofData =
     and_then (get proofData ''response'') (\<lambda>r.
       if \<not> truthy r then Inr True
       else and_then (get proofData ''proof'') (\<lambda>p. Inr (\<not> truthy p)))"

definition verifyPayment ::
  "(js \<Rightarrow> exn + int) \<Rightarrow> read_oracle \<Rightarrow> js \<Rightarrow> FdcContractAddresses option
     \<Rightarrow> (exn + js) \<times> effect list" where
  "verifyPayment BigInt readContract proofData fdcAddresses =
     (case fdcAddresses of
        None \<Rightarrow> (Inl (Error ''FDC Verification address not loaded''), [])
      | Some a \<Rightarrow>
          if fdcVerification a = [] then (Inl (Error ''FDC Verification address not loaded''), [])
          else
            (case incomplete proofData of
               Inl e \<Rightarrow> (Inl e, [])
             | Inr True \<Rightarrow> (Inl (Error ''Proof data is incomplete''), [])
             | Inr False \<Rightarrow>
                 (case and_then (get proofData ''response'') (\<lambda>response.
                         and_then (get proofData ''proof'') (\<lambda>proof.
                           verifyPayment_argument BigInt response proof)) of
                    Inl e \<Rightarrow> (Inl e, [])
                  | Inr argument \<Rightarrow>
                      (readContract SharedClient (fdcVerification a) ''verifyPayment'' [argument],
                       [ReadContract SharedClient (fdcVerification a) ''verifyPayment'' [argument]]))))"

subsection \<open>\<open>calculateRoundId\<close>\<close>

text \<open>Division of \<open>bigint\<close> values: it truncates towards zero and throws on a zero divisor.\<close>

definition bigint_div :: "int \<Rightarrow> int \<Rightarrow> exn + int" where
  "bigint_div a b =
     (if b = 0 then Inl (RangeError ''Division by zero'')
      else Inr (sgn a * sgn b * (\<bar>a\<bar> div \<bar>b\<bar>)))"

text \<open>
  The round id \<open>Number(q)\<close> is returned as the integer \<open>q\<close>, which it is for every quotient
  below \<open>2 ^ 53\<close> in absolute value.
\<close>

definition calculateRoundId ::
  "(js \<Rightarrow> exn + int) \<Rightarrow> (client \<Rightarrow> js \<Rightarrow> exn + js) \<Rightarrow> read_oracle \<Rightarrow> js
     \<Rightarrow> FdcContractAddresses option \<Rightarrow> (exn + int) \<times> effect list" where
  "calculateRoundId BigInt getBlock readContract transaction fdcAddresses =
     (case fdcAddresses of
        None \<Rightarrow> (Inl (Error ''Flare Systems Manager address not loaded''), [])
      | Some a \<Rightarrow>
          if flareSystemsManager a = []
          then (Inl (Error ''Flare Systems Manager address not loaded''), [])
          else
            (case path2 transaction ''receipt'' ''blockNumber'' of
               Inl e \<Rightarrow> (Inl e, [])
             | Inr blockNumber \<Rightarrow>
            (let manager = flareSystemsManager a;
                 e1 = [GetBlock SharedClient blockNumber];
                 e2 = e1 @ [ReadContract SharedClient manager ''firstVotingRoundStartTs'' []];
                 e3 = e2 @ [ReadContract SharedClient manager ''votingEpochDurationSeconds'' []];
                 e4 = e3 @ [ReadContract SharedClient manager ''getCurrentVotingEpochId'' []]
             in case and_then (getBlock SharedClient blockNumber) (\<lambda>block.
                       and_then (get block ''timestamp'') BigInt) of
                  Inl e \<Rightarrow> (Inl e, e1)
                | Inr blockTimestamp \<Rightarrow>
             (case and_then (readContract SharedClient manager ''firstVotingRoundStartTs'' []) BigInt of
                  Inl e \<Rightarrow> (Inl e, e2)
                | Inr firsVotingRoundStartTs \<Rightarrow>
             (case and_then (readContract SharedClient manager ''votingEpochDurationSeconds'' []) BigInt of
                  Inl e \<Rightarrow> (Inl e, e3)
                | Inr votingEpochDurationSeconds \<Rightarrow>
             (case bigint_div (blockTimestamp - firsVotingRoundStartTs) votingEpochDurationSeconds of
                  Inl e \<Rightarrow> (Inl e, e3)
                | Inr roundId \<Rightarrow>
             (case readContract SharedClient manager ''getCurrentVotingEpochId'' [] of
                  Inl e \<Rightarrow> (Inl e, e4)
                | Inr currentVotingEpochId \<Rightarrow> (Inr roundId, e4))))))))"

section \<open>The workflow component \<open>Fdc\<close>\<close>

subsection \<open>State of the component and what the effects do to it\<close>

record app_state =
  steps :: "FdcStep list"
  isLoading :: bool
  error_message :: "string option"
  success :: "string option"
  currentAttestationData :: "js option"
  currentAttestationStep :: string
  proofData :: "js option"
  verificationResult :: "js option"
  expandedSteps :: "string set"

text \<open>
  Timers, HTTP requests, RPC reads and the wallet transaction leave the state of the
  component as it is; each state update is the setter of the source.
\<close>

fun apply_effect :: "effect \<Rightarrow> app_state \<Rightarrow> app_state" where
  "apply_effect (UpdateStepStatus stepId st d e) s = s\<lparr>steps := updateStepStatus stepId st d e (steps s)\<rparr>"
| "apply_effect ResetSteps s = s\<lparr>steps := map (\<lambda>step. step\<lparr>status_step := pending\<rparr>) (steps s)\<rparr>"
| "apply_effect (SetIsLoading b) s = s\<lparr>isLoading := b\<rparr>"
| "apply_effect (SetError m) s = s\<lparr>error_message := m\<rparr>"
| "apply_effect (SetSuccess m) s = s\<lparr>success := m\<rparr>"
| "apply_effect (SetCurrentAttestationData v) s = s\<lparr>currentAttestationData := Some v\<rparr>"
| "apply_effect (SetCurrentAttestationStep m) s = s\<lparr>currentAttestationStep := m\<rparr>"
| "apply_effect (SetProofData v) s = s\<lparr>proofData := Some v\<rparr>"
| "apply_effect (SetVerificationResult v) s = s\<lparr>verificationResult := Some v\<rparr>"
| "apply_effect (ExpandStep stepId) s = s\<lparr>expandedSteps := insert stepId (expandedSteps s)\<rparr>"
| "apply_effect (Sleep ms) s = s"
| "apply_effect (Fetch url hs body) s = s"
| "apply_effect (GetBlock c n) s = s"
| "apply_effect (ReadContract c a f args) s = s"
| "apply_effect (RequestAttestation a args v) s = s"

definition run_effects :: "effect list \<Rightarrow> app_state \<Rightarrow> app_state" where
  "run_effects effects s = foldl (\<lambda>s e. apply_effect e s) s effects"

text \<open>An operation is an effect outside the component: a timer, a request, a read, a transaction.\<close>

fun is_operation :: "effect \<Rightarrow> bool" where
  "is_operation (Sleep ms) = True"
| "is_operation (Fetch url hs body) = True"
| "is_operation (GetBlock c n) = True"
| "is_operation (ReadContract c a f args) = True"
| "is_operation (RequestAttestation a args v) = True"
| "is_operation e = False"

fun is_transaction :: "effect \<Rightarrow> bool" where
  "is_transaction (RequestAttestation a args v) = True"
| "is_transaction e = False"

fun is_read :: "effect \<Rightarrow> bool" where
  "is_read (ReadContract c a f args) = True"
| "is_read e = False"

fun is_verification :: "effect \<Rightarrow> bool" where
  "is_verification (ReadContract c a f args) = (f = ''verifyPayment'')"
| "is_verification e = False"

subsection \<open>The environment of a run\<close>

text \<open>
  What the hooks return and what the network answers during one run of the workflow:
  \<^item> \<open>addresses\<close> and \<open>addressError\<close> of \<open>useFdcContracts\<close>, \<open>isConnected\<close> of \<open>useAccount\<close>;
  \<^item> the client of \<open>usePublicClient\<close> and the fallback client of the component;
  \<^item> the verifier's answer to a request to a URL, the RPC reads, the wallet's answer to
    \<open>requestAttestationAsync\<close> (the transaction hash, or a rejection);
  \<^item> the receipt \<open>useWaitForTransactionReceipt\<close> delivers, if the transaction is confirmed;
  \<^item> the replies of the Data Availability Layer during each call of \<open>retrieveDataAndProof\<close>;
  \<^item> the built-ins \<open>BigInt\<close> and \<open>JSON.stringify\<close>;
  \<^item> what the hooks hold when the run begins: \<open>previous\<close> is the \<open>attestationHash\<close> and the
    \<open>receipt\<close> of an earlier submission that was confirmed, if there has been one since the
    component was mounted, and \<open>previous_da_replies\<close> are the replies of the Data Availability
    Layer to a continuation started on that earlier receipt.
\<close>

record env =
  addresses :: "FdcContractAddresses option"
  addressError :: "string option"
  isConnected :: bool
  wagmiPublicClient :: "client option"
  fallbackPublicClient :: "client option"
  verifier :: "string \<Rightarrow> fetch_result"
  rpc_read :: read_oracle
  rpc_block :: "client \<Rightarrow> js \<Rightarrow> exn + js"
  wallet :: "string \<Rightarrow> js list \<Rightarrow> js \<Rightarrow> exn + js"
  receipt :: "js option"
  da_replies :: "nat \<Rightarrow> fetch_result list"
  toBigInt :: "js \<Rightarrow> exn + int"
  toJSON :: "js \<Rightarrow> string"
  previous :: "(js \<times> js) option"
  previous_da_replies :: "nat \<Rightarrow> fetch_result list"

subsection \<open>Sequencing inside a \<open>try\<close> block\<close>

text \<open>
  A computation gives its effects and either a value, a thrown error, or nothing when an
  awaited call never settles. \<open>seq\<close> runs the rest after a value and stops otherwise.
\<close>

type_synonym 'a run = "(exn + 'a) option \<times> effect list"

definition seq :: "'a run \<Rightarrow> ('a \<Rightarrow> 'b run) \<Rightarrow> 'b run" where
  "seq m f =
     (case m of
        (None, effects) \<Rightarrow> (None, effects)
      | (Some (Inl e), effects) \<Rightarrow> (Some (Inl e), effects)
      | (Some (Inr v), effects) \<Rightarrow> (case f v of (r, later) \<Rightarrow> (r, effects @ later)))"

definition emit :: "effect list \<Rightarrow> unit run" where
  "emit effects = (Some (Inr ()), effects)"

definition throw :: "exn \<Rightarrow> 'a run" where
  "throw e = (Some (Inl e), [])"

definition settled :: "(exn + 'a) \<times> effect list \<Rightarrow> 'a run" where
  "settled m = (Some (fst m), snd m)"

definition pure :: "exn + 'a \<Rightarrow> 'a run" where
  "pure x = (Some x, [])"

subsection \<open>\<open>submitAttestationRequestWithWagmi\<close>\<close>

definition fallback_fee :: js where
  "fallback_fee = JBig 1000000000000000000"

text \<open>\<open>wagmiPublicClient || fallbackPublicClient\<close>\<close>

definition clientToUse :: "env \<Rightarrow> client option" where
  "clientToUse env = (case wagmiPublicClient env of Some c \<Rightarrow> Some c | None \<Rightarrow> fallbackPublicClient env)"

text \<open>The fee the function attaches, and the read it makes for it.\<close>

definition requestFee :: "env \<Rightarrow> FdcContractAddresses \<Rightarrow> js \<Rightarrow> js \<times> effect list" where
  "requestFee env a abiEncodedRequest =
     (case clientToUse env of
        Some c \<Rightarrow>
          (case rpc_read env c (fdcRequestFeeConfigurations a) ''getRequestFee'' [abiEncodedRequest] of
             Inr fee \<Rightarrow> (fee, [ReadContract c (fdcRequestFeeConfigurations a) ''getRequestFee'' [abiEncodedRequest]])
           | Inl e \<Rightarrow> (fallback_fee, [ReadContract c (fdcRequestFeeConfigurations a) ''getRequestFee'' [abiEncodedRequest]]))
      | None \<Rightarrow> (fallback_fee, []))"

text \<open>
  The promise of the source resolves to nothing; the value kept here is the answer of the
  wallet, the transaction hash that the hook exposes as \<open>attestationHash\<close>.
\<close>

definition submitAttestationRequestWithWagmi ::
  "env \<Rightarrow> js \<Rightarrow> FdcContractAddresses option \<Rightarrow> (exn + js) \<times> effect list" where
  "submitAttestationRequestWithWagmi env abiEncodedRequest fdcAddresses =
     (if \<not> truthy abiEncodedRequest then (Inl (Error ''ABI encoded request is undefined or empty''), [])
      else case fdcAddresses of
        None \<Rightarrow> (Inl (Error ''FDC Hub address not loaded''), [])
      | Some a \<Rightarrow>
          if fdcHub a = [] then (Inl (Error ''FDC Hub address not loaded''), [])
          else (case requestFee env a abiEncodedRequest of
                  (fee, reads) \<Rightarrow>
                    (wallet env (fdcHub a) [abiEncodedRequest] fee,
                     reads @ [RequestAttestation (fdcHub a) [abiEncodedRequest] fee])))"

subsection \<open>\<open>prepareRequest\<close>\<close>

definition payment_request :: "string \<Rightarrow> js" where
  "payment_request transactionId =
     JObj [(''attestationType'', JStr ''0x5061796d656e7400000000000000000000000000000000000000000000000000''),
           (''sourceId'', JStr ''0x7465737458525000000000000000000000000000000000000000000000000000''),
           (''requestBody'', JObj [(''transactionId'', JStr transactionId),
                                   (''inUtxo'', JStr ''0''), (''utxo'', JStr ''0'')])]"

definition prepareRequest_url :: string where
  "prepareRequest_url = ''https://fdc-verifiers-testnet.flare.network/verifier/xrp/Payment/prepareRequest''"

definition prepareResponse_url :: string where
  "prepareResponse_url = ''https://fdc-verifiers-testnet.flare.network/verifier/xrp/Payment/prepareResponse''"

definition verifier_fetch :: "string \<Rightarrow> string \<Rightarrow> effect" where
  "verifier_fetch url transactionId =
     Fetch url [(''accept'', ''*/*''), (''X-API-KEY'', ''00000000-0000-0000-0000-000000000000''),
                (''Content-Type'', ''application/json'')]
       (payment_request transactionId)"

text \<open>The own properties an object spread copies; the spread of \<open>data\<close> is only reached for an object.\<close>

fun entries :: "js \<Rightarrow> (string \<times> js) list" where
  "entries (JObj kvs) = kvs"
| "entries v = []"

text \<open>\<open>{...data, k: v}\<close>: the property is replaced where it is, or added at the end.\<close>

fun set_property :: "(string \<times> js) list \<Rightarrow> string \<Rightarrow> js \<Rightarrow> (string \<times> js) list" where
  "set_property [] k v = [(k, v)]"
| "set_property ((k', v') # kvs) k v =
     (if k' = k then (k, v) # kvs else (k', v') # set_property kvs k v)"

definition requestDetails :: "string \<Rightarrow> js \<Rightarrow> http_response \<Rightarrow> js" where
  "requestDetails transactionId d response =
     JObj [(''requestBody'', payment_request transactionId),
           (''responseBody'', d),
           (''status'', JNum (of_nat (status_http response))),
           (''headers'', JObj (map (\<lambda>(k, v). (k, JStr v)) (headers response)))]"

text \<open>The \<open>try\<close> block of \<open>prepareRequest\<close>.\<close>

definition prepareRequest_try :: "env \<Rightarrow> string \<Rightarrow> js run" where
  "prepareRequest_try env transactionId =
     seq (emit [UpdateStepStatus ''prepare-request'' in_progress None None,
                verifier_fetch prepareRequest_url transactionId]) (\<lambda>_.
     seq (pure (verifier env prepareRequest_url)) (\<lambda>first.
     seq (if \<not> ok first
          then seq (emit [verifier_fetch prepareResponse_url transactionId]) (\<lambda>_.
                 pure (verifier env prepareResponse_url))
          else pure (Inr first)) (\<lambda>response.
     if \<not> ok response
     then throw (Error (''HTTP error! status: '' @ string_of_nat (status_http response)))
     else
     seq (pure (json response)) (\<lambda>d.
     seq (pure (get d ''abiEncodedRequest'')) (\<lambda>abiEncodedRequest.
     if \<not> truthy abiEncodedRequest
     then throw (Error (''API response missing abiEncodedRequest. Response: '' @ toJSON env d))
     else
     seq (emit [UpdateStepStatus ''prepare-request'' completed
                  (Some (set_property (entries d) ''requestDetails''
                           (requestDetails transactionId d response))) None]) (\<lambda>_.
     pure (Inr d)))))))"

text \<open>The \<open>catch\<close> block marks the step and throws the error again.\<close>

definition prepareRequest :: "env \<Rightarrow> string \<Rightarrow> js run" where
  "prepareRequest env transactionId =
     (case prepareRequest_try env transactionId of
        (Some (Inl e), effects) \<Rightarrow>
          (Some (Inl e),
           effects @ [UpdateStepStatus ''prepare-request'' error None
                        (Some (message_or ''Unknown error occurred'' e))])
      | r \<Rightarrow> r)"

subsection \<open>\<open>executeFdcWorkflow\<close>\<close>

definition is_space :: "char \<Rightarrow> bool" where
  "is_space c = (c \<in> set [CHR 0x09, CHR 0x0A, CHR 0x0B, CHR 0x0C, CHR 0x0D, CHR 0x20, CHR 0xA0])"

definition trim :: "string \<Rightarrow> string" where
  "trim s = rev (dropWhile is_space (rev (dropWhile is_space s)))"

record FdcFormData =
  transactionId :: string

text \<open>The three guards at the head of \<open>executeFdcWorkflow\<close>: the message of the first that fails.\<close>

definition guard :: "env \<Rightarrow> string option" where
  "guard env =
     (case addresses env of
        None \<Rightarrow> Some ''FDC contract addresses not loaded. Please wait and try again.''
      | Some a \<Rightarrow>
          (case addressError env of
             Some (c # cs) \<Rightarrow> Some (''Error loading contract addresses: '' @ c # cs)
           | _ \<Rightarrow>
               if \<not> isConnected env
               then Some ''Please connect your wallet to submit attestation requests to the blockchain.''
               else None))"

text \<open>
  The \<open>try\<close> block. Its value is what the hooks see once the wallet has taken the
  transaction: the attestation data put into the state, and the transaction hash.
\<close>

definition executeFdcWorkflow_try :: "env \<Rightarrow> string \<Rightarrow> (js \<times> js) run" where
  "executeFdcWorkflow_try env tid =
     seq (prepareRequest env tid) (\<lambda>attestationResponse.
     seq (pure (get attestationResponse ''abiEncodedRequest'')) (\<lambda>abiEncodedRequest.
     seq (emit [SetCurrentAttestationData attestationResponse,
                UpdateStepStatus ''submit-request'' in_progress None None]) (\<lambda>_.
     seq (settled (submitAttestationRequestWithWagmi env abiEncodedRequest (addresses env))) (\<lambda>hash.
     pure (Inr (attestationResponse, hash))))))"

definition executeFdcWorkflow :: "env \<Rightarrow> FdcFormData \<Rightarrow> effect list" where
  "executeFdcWorkflow env d =
     (case guard env of
        Some m \<Rightarrow> [SetError (Some m)]
      | None \<Rightarrow>
          [SetIsLoading True, SetError None, SetSuccess None, ResetSteps]
          @ (case executeFdcWorkflow_try env (trim (transactionId d)) of
               (Some (Inl e), effects) \<Rightarrow>
                 effects @ [SetError (Some (message_or ''An unexpected error occurred'' e)),
                            SetIsLoading False]
             | (r, effects) \<Rightarrow> effects))"

subsection \<open>\<open>continueWorkflowAfterSubmission\<close>\<close>

text \<open>A property of a value that is known to be neither \<open>null\<close> nor \<open>undefined\<close>.\<close>

definition property :: "js \<Rightarrow> string \<Rightarrow> js" where
  "property v k = (case get v k of Inl e \<Rightarrow> JUndefined | Inr x \<Rightarrow> x)"

definition waiting_message :: "int \<Rightarrow> string" where
  "waiting_message roundId = ''Waiting for voting round '' @ string_of_int roundId @ '' to be finalized...''"

definition requiredFields :: "string list" where
  "requiredFields = [''blockNumber'', ''blockTimestamp'', ''spentAmount'', ''intendedSpentAmount'',
                     ''receivedAmount'', ''intendedReceivedAmount'']"

text \<open>The loop over \<open>requiredFields\<close>.\<close>

fun check_required :: "js \<Rightarrow> string list \<Rightarrow> exn + unit" where
  "check_required rb [] = Inr ()"
| "check_required rb (field # others) =
     and_then (get rb field) (\<lambda>v.
       if v = JUndefined \<or> v = JNull
       then Inl (Error (''Proof data is missing required field: '' @ field))
       else check_required rb others)"

text \<open>Step 5, from the validation of the proof to the end of the \<open>try\<close> block.\<close>

definition verify_data :: "env \<Rightarrow> js \<Rightarrow> unit run" where
  "verify_data env proof =
     (if addresses env = None then throw (Error ''FDC contract addresses not loaded'')
      else if \<not> truthy proof \<or> \<not> truthy (property proof ''response'') \<or> \<not> truthy (property proof ''proof'')
      then throw (Error ''Proof data is incomplete'')
      else
      seq (pure (check_required (property (property proof ''response'') ''responseBody'') requiredFields)) (\<lambda>_.
      seq (settled (verifyPayment (toBigInt env) (rpc_read env) proof (addresses env))) (\<lambda>verificationResult.
      emit [SetVerificationResult (JObj [(''verified'', verificationResult)]),
            UpdateStepStatus ''verify-data'' completed
              (Some [(''message'', JStr ''Payment attestation verified successfully''),
                     (''verificationResult'', verificationResult),
                     (''verified'', verificationResult)]) None,
            SetCurrentAttestationStep [],
            SetSuccess (Some ''FDC workflow completed successfully! All steps have been executed.'')])))"

text \<open>Step 4, the retrieval of the proof, and then step 5.\<close>

definition prepare_proof :: "env \<Rightarrow> js \<Rightarrow> int \<Rightarrow> unit run" where
  "prepare_proof env attestationData roundId =
     seq (emit [UpdateStepStatus ''prepare-proof'' in_progress None None,
                SetCurrentAttestationStep ''Retrieving proof from Data Availability Layer...'']) (\<lambda>_.
     seq (retrievePaymentDataAndProofWithRetry DA_LAYER_API_URL (property attestationData ''abiEncodedRequest'')
            (JNum (of_int roundId)) DA_LAYER_API_KEY None (da_replies env)) (\<lambda>proof.
     seq (emit [SetProofData proof]) (\<lambda>_.
     seq (pure (get proof ''response'')) (\<lambda>_.
     seq (emit [UpdateStepStatus ''prepare-proof'' completed
                  (Some [(''message'', JStr ''Proof retrieved from Data Availability Layer''),
                         (''proof'', property proof ''proof'')]) None,
                UpdateStepStatus ''verify-data'' in_progress None None,
                SetCurrentAttestationStep
                  ''Verifying payment attestation with FDC Verification contract...'']) (\<lambda>_.
     verify_data env proof)))))"

text \<open>The \<open>try\<close> block of \<open>continueWorkflowAfterSubmission\<close>: step 3, then the steps 4 and 5.\<close>

definition continue_try :: "env \<Rightarrow> js option \<Rightarrow> js \<Rightarrow> unit run" where
  "continue_try env attestationData transactionReceipt =
     seq (emit [UpdateStepStatus ''wait-finalization'' in_progress None None,
                SetCurrentAttestationStep ''Calculating round ID from transaction...'']) (\<lambda>_.
     case attestationData of
       None \<Rightarrow> throw (Error ''Missing required data for round ID calculation'')
     | Some currentData \<Rightarrow>
     if addresses env = None \<or> \<not> truthy transactionReceipt \<or> \<not> truthy currentData
     then throw (Error ''Missing required data for round ID calculation'')
     else
     seq (settled (calculateRoundId (toBigInt env) (rpc_block env) (rpc_read env)
            (JObj [(''receipt'', JObj [(''blockNumber'', property transactionReceipt ''blockNumber'')])])
            (addresses env))) (\<lambda>roundId.
     seq (emit [UpdateStepStatus ''wait-finalization'' in_progress
                  (Some [(''message'', JStr (waiting_message roundId)),
                         (''roundId'', JNum (of_int roundId))]) None,
                SetCurrentAttestationStep (waiting_message roundId),
                Sleep 30000,
                SetCurrentAttestationStep [],
                UpdateStepStatus ''wait-finalization'' completed
                  (Some [(''message'', JStr ''Voting round finalized''),
                         (''roundId'', JNum (of_int roundId))]) None]) (\<lambda>_.
     prepare_proof env currentData roundId)))"

definition continueWorkflowAfterSubmission :: "env \<Rightarrow> js option \<Rightarrow> js \<Rightarrow> effect list" where
  "continueWorkflowAfterSubmission env attestationData transactionReceipt =
     (case continue_try env attestationData transactionReceipt of
        (Some (Inl e), effects) \<Rightarrow>
          effects @ [SetCurrentAttestationStep [],
                     SetError (Some (message_or ''Unknown error occurred'' e))]
      | (r, effects) \<Rightarrow> effects)"

subsection \<open>The hooks and a whole run\<close>

text \<open>
  The effect on \<open>isAttestationSuccess && receipt && currentAttestationData\<close>: it completes
  step 2 and continues the workflow.
\<close>

definition onAttestationSuccess :: "env \<Rightarrow> js \<Rightarrow> js \<Rightarrow> js \<Rightarrow> effect list" where
  "onAttestationSuccess env attestationData attestationHash transactionReceipt =
     (if truthy transactionReceipt \<and> truthy attestationData then
        [UpdateStepStatus ''submit-request'' completed
           (Some [(''message'', JStr ''Attestation request submitted successfully to FdcHub contract''),
                  (''transactionHash'', attestationHash),
                  (''blockNumber'', property transactionReceipt ''blockNumber''),
                  (''abiEncodedRequest'', property attestationData ''abiEncodedRequest'')]) None,
         ExpandStep ''submit-request'']
        @ continueWorkflowAfterSubmission env (Some attestationData) transactionReceipt
      else [])"

text \<open>The effect on \<open>writeError\<close>, the rejection of the transaction by the wallet.\<close>

definition onWriteError :: "exn \<Rightarrow> effect list" where
  "onWriteError writeError =
     [UpdateStepStatus ''submit-request'' error None (Some (message_or ''undefined'' writeError)),
      SetError (Some (''Transaction failed: '' @ message_or ''undefined'' writeError))]"

text \<open>
  The hook that the transaction of this submission triggers. When the wallet has taken the
  transaction and its receipt arrives, the effect on the receipt runs with the new hash and
  the new receipt; when the wallet has rejected it, the \<open>catch\<close> block of \<open>executeFdcWorkflow\<close>
  has run and the effect on \<open>writeError\<close> follows.
\<close>

definition transaction_hooks :: "env \<Rightarrow> FdcFormData \<Rightarrow> effect list" where
  "transaction_hooks env d =
     (case guard env of
        Some m \<Rightarrow> []
      | None \<Rightarrow>
          (case executeFdcWorkflow_try env (trim (transactionId d)) of
             (Some (Inr (attestationData, attestationHash)), effects) \<Rightarrow>
               (case receipt env of
                  None \<Rightarrow> []
                | Some transactionReceipt \<Rightarrow>
                    onAttestationSuccess env attestationData attestationHash transactionReceipt)
           | (Some (Inl e), effects) \<Rightarrow> if list_ex is_transaction effects then onWriteError e else []
           | (None, effects) \<Rightarrow> []))"

text \<open>
  \<open>executeFdcWorkflow\<close> and then the hook of its transaction: the whole run when the effect on
  the receipt does not fire before the transaction is sent.
\<close>

definition workflow :: "env \<Rightarrow> FdcFormData \<Rightarrow> effect list" where
  "workflow env d = executeFdcWorkflow env d @ transaction_hooks env d"

text \<open>
  The effect on the receipt lists \<open>currentAttestationData\<close> among its dependencies, and
  \<open>executeFdcWorkflow\<close> stores new attestation data before it sends the transaction. The hash
  and the receipt of an earlier confirmed submission stay in the hooks until
  \<open>requestAttestationAsync\<close> is called again. So when \<open>previous\<close> holds such a pair, the render
  that follows \<open>setCurrentAttestationData\<close> runs the effect once more, with the new data, the
  earlier hash and the earlier receipt: a continuation starts that belongs to the earlier
  transaction.
\<close>

fun stores_data :: "effect \<Rightarrow> bool" where
  "stores_data (SetCurrentAttestationData v) = True"
| "stores_data e = False"

definition stale_continuation :: "env \<Rightarrow> js \<Rightarrow> effect list" where
  "stale_continuation env attestationData =
     (case previous env of
        None \<Rightarrow> []
      | Some (attestationHash, transactionReceipt) \<Rightarrow>
          onAttestationSuccess (env\<lparr>da_replies := previous_da_replies env\<rparr>)
            attestationData attestationHash transactionReceipt)"

text \<open>
  Code runs without interruption up to its next \<open>await\<close> of an operation: \<open>until_await\<close> are the
  effects up to and including the first operation, \<open>after_await\<close> the ones that follow it.
\<close>

fun until_await :: "effect list \<Rightarrow> effect list" where
  "until_await [] = []"
| "until_await (x # xs) = (if is_operation x then [x] else x # until_await xs)"

fun after_await :: "effect list \<Rightarrow> effect list" where
  "after_await [] = []"
| "after_await (x # xs) = (if is_operation x then xs else after_await xs)"

text \<open>
  The runs of the workflow from one submission of the form. \<open>executeFdcWorkflow\<close> goes on
  from \<open>setCurrentAttestationData\<close> to its next \<open>await\<close>, the read of the fee; the render comes
  while that read is awaited. When the hooks hold no earlier receipt, or when the
  transaction has already been handed to the wallet by then, which clears the earlier
  hash, the run is \<open>workflow\<close>. Otherwise the effect on the earlier receipt runs up to its own
  first \<open>await\<close>, and from there on the continuation it has started and the rest of the
  submission go on side by side: every interleaving that keeps the order of each of the two
  is a run.
\<close>

definition runs :: "env \<Rightarrow> FdcFormData \<Rightarrow> effect list set" where
  "runs env d =
     (case dropWhile (\<lambda>x. \<not> stores_data x) (workflow env d) of
        SetCurrentAttestationData attestationData # later \<Rightarrow>
          if previous env = None \<or> list_ex is_transaction (until_await later)
          then {workflow env d}
          else (\<lambda>rest. takeWhile (\<lambda>x. \<not> stores_data x) (workflow env d)
                         @ SetCurrentAttestationData attestationData # until_await later
                         @ until_await (stale_continuation env attestationData) @ rest)
               ` shuffles (after_await (stale_continuation env attestationData)) (after_await later)
      | _ \<Rightarrow> {workflow env d})"

subsection \<open>The order of the steps\<close>

definition step_order :: "string list" where
  "step_order = [''prepare-request'', ''submit-request'', ''wait-finalization'', ''prepare-proof'',
                 ''verify-data'']"

definition earlier_steps :: "string \<Rightarrow> string list" where
  "earlier_steps stepId = takeWhile (\<lambda>s. s \<noteq> stepId) step_order"

text \<open>
  The operations of each step: the requests to the verifier in step 1; the read of the fee
  and the transaction in step 2; the reads of the block and of the voting rounds and the
  wait of 30 seconds in step 3; the waits and the requests to the Data Availability Layer
  in step 4; the call of the verification contract in step 5.
\<close>

fun operation_of_step :: "string \<Rightarrow> effect \<Rightarrow> bool" where
  "operation_of_step stepId (Fetch url hs body) =
     (stepId = ''prepare-request'' \<and> (url = prepareRequest_url \<or> url = prepareResponse_url)
      \<or> stepId = ''prepare-proof'' \<and> url = DA_LAYER_API_URL)"
| "operation_of_step stepId (RequestAttestation a args v) = (stepId = ''submit-request'')"
| "operation_of_step stepId (ReadContract c a f args) =
     (stepId = ''submit-request'' \<and> f = ''getRequestFee''
      \<or> stepId = ''wait-finalization''
          \<and> (f = ''firstVotingRoundStartTs'' \<or> f = ''votingEpochDurationSeconds''
               \<or> f = ''getCurrentVotingEpochId'')
      \<or> stepId = ''verify-data'' \<and> f = ''verifyPayment'')"
| "operation_of_step stepId (GetBlock c n) = (stepId = ''wait-finalization'')"
| "operation_of_step stepId (Sleep ms) =
     (stepId = ''wait-finalization'' \<and> ms = 30000
      \<or> stepId = ''prepare-proof'' \<and> (ms = 30000 \<or> ms = 10000 \<or> ms = 20000))"
| "operation_of_step stepId e = False"

fun is_request :: "effect \<Rightarrow> bool" where
  "is_request (Fetch url hs body) = True"
| "is_request e = False"

fun is_block_read :: "effect \<Rightarrow> bool" where
  "is_block_read (GetBlock c n) = True"
| "is_block_read e = False"

text \<open>What a step must have done, among the operations made while it was in progress, to be complete.\<close>

definition step_done :: "string \<Rightarrow> effect list \<Rightarrow> bool" where
  "step_done stepId performed =
     (if stepId = ''prepare-request'' then list_ex is_request performed
      else if stepId = ''submit-request'' then list_ex is_transaction performed
      else if stepId = ''wait-finalization''
        then list_ex is_block_read performed \<and> list_ex (\<lambda>x. x = Sleep 30000) performed
      else if stepId = ''prepare-proof'' then list_ex is_request performed
      else if stepId = ''verify-data'' then list_ex is_verification performed
      else False)"

text \<open>
  How far a run has come: the steps completed since the last reset, the step in progress,
  and the operations made since that step was started.
\<close>

type_synonym progress = "string list \<times> string option \<times> effect list"

text \<open>
  One effect of a run that keeps the order of the workflow, and \<open>None\<close> for one that breaks it:
  \<^item> a step is set to \<open>in_progress\<close> only when every earlier step has been completed;
  \<^item> a step is set to \<open>completed\<close> only when it is the one in progress and has done its work;
  \<^item> an operation is made only while the step it belongs to is in progress.
\<close>

fun advance :: "progress \<Rightarrow> effect \<Rightarrow> progress option" where
  "advance (finished, current, performed) (UpdateStepStatus stepId st d e) =
     (if st = in_progress then
        (if list_all (\<lambda>s. s \<in> set finished) (earlier_steps stepId)
         then Some (finished, Some stepId, if current = Some stepId then performed else [])
         else None)
      else if st = completed then
        (if current = Some stepId \<and> step_done stepId performed
         then Some (stepId # finished, None, [])
         else None)
      else Some (finished, if current = Some stepId then None else current, performed))"
| "advance (finished, current, performed) ResetSteps = Some ([], None, [])"
| "advance (finished, current, performed) x =
     (if is_operation x then
        (case current of
           None \<Rightarrow> None
         | Some stepId \<Rightarrow>
             if operation_of_step stepId x then Some (finished, current, performed @ [x]) else None)
      else Some (finished, current, performed))"

fun follow :: "progress option \<Rightarrow> effect list \<Rightarrow> progress option" where
  "follow p [] = p"
| "follow None (x # xs) = None"
| "follow (Some p) (x # xs) = follow (advance p x) xs"

definition executed_in_order :: "effect list \<Rightarrow> bool" where
  "executed_in_order effects = (follow (Some ([], None, [])) effects \<noteq> None)"

text \<open>After the verification call, should there be one, no operation follows.\<close>

definition verification_last :: "effect list \<Rightarrow> bool" where
  "verification_last effects =
     (case dropWhile (\<lambda>x. \<not> is_verification x) effects of
        [] \<Rightarrow> True
      | v # later \<Rightarrow> list_all (\<lambda>x. \<not> is_operation x) later)"

text \<open>The statuses the steps are given, in the order of the updates.\<close>

fun status_updates :: "effect list \<Rightarrow> (string \<times> status) list" where
  "status_updates [] = []"
| "status_updates (UpdateStepStatus stepId st d e # effects) = (stepId, st) # status_updates effects"
| "status_updates (x # effects) = status_updates effects"

subsection \<open>Where the fee of a transaction comes from\<close>

text \<open>
  \<open>fee_read_from_contract rc before effects\<close>: every transaction among the effects carries a
  value that an earlier read of \<open>getRequestFee\<close> has returned, \<open>rc\<close> being the answers of the
  chain and \<open>before\<close> the effects already performed.
\<close>

fun reads_fee :: "read_oracle \<Rightarrow> js \<Rightarrow> effect \<Rightarrow> bool" where
  "reads_fee rc v (ReadContract c a f args) = (f = ''getRequestFee'' \<and> rc c a f args = Inr v)"
| "reads_fee rc v e = False"

fun fee_read_from_contract :: "read_oracle \<Rightarrow> effect list \<Rightarrow> effect list \<Rightarrow> bool" where
  "fee_read_from_contract rc before [] = True"
| "fee_read_from_contract rc before (RequestAttestation a args v # rest) =
     (list_ex (reads_fee rc v) before
      \<and> fee_read_from_contract rc (before @ [RequestAttestation a args v]) rest)"
| "fee_read_from_contract rc before (e # rest) = fee_read_from_contract rc (before @ [e]) rest"

section \<open>Concrete inputs\<close>

definition two_steps :: "FdcStep list" where
  "two_steps =
     [\<lparr>id_step = ''prepare-request'', title = ''1. Prepare Request'', description = Text ''Prepare'',
        status_step = pending, data_step = None, error_step = None, details = None\<rparr>,
      \<lparr>id_step = ''submit-request'', title = ''2. Submit Request'', description = ReactNode ''a'',
        status_step = pending, data_step = None, error_step = Some ''old'', details = None\<rparr>]"

definition da_ready :: http_response where
  "da_ready = \<lparr>status_http = 200, statusText = ''OK'', headers = [],
      json = Inr (JObj [(''response'', JObj [(''votingRound'', JStr ''7'')]), (''proof'', JArr [])])\<rparr>"

definition da_pending :: http_response where
  "da_pending = \<lparr>status_http = 200, statusText = ''OK'', headers = [],
      json = Inr (JObj [(''error'', JStr ''proof not ready'')])\<rparr>"

definition da_failure :: http_response where
  "da_failure = \<lparr>status_http = 400, statusText = ''Bad Request'', headers = [], json = Inr JNull\<rparr>"

text \<open>A reply whose \<open>response\<close> is the number zero, next to an array of one hash as \<open>proof\<close>.\<close>

definition da_zero :: http_response where
  "da_zero = \<lparr>status_http = 200, statusText = ''OK'', headers = [],
      json = Inr (JObj [(''response'', JNum 0), (''proof'', JArr [JStr ''0x01''])])\<rparr>"

definition fail_then_ready :: "nat \<Rightarrow> fetch_result list" where
  "fail_then_ready i = (if i = 0 then [Inr da_failure] else [Inr da_ready])"

definition loaded :: FdcContractAddresses where
  "loaded = \<lparr>fdcHub = ''0xHub'', fdcRequestFeeConfigurations = ''0xFee'',
             flareSystemsManager = ''0xManager'', fdcVerification = ''0xVerification''\<rparr>"

definition verifier_ok :: http_response where
  "verifier_ok = \<lparr>status_http = 200, statusText = ''OK'', headers = [(''content-type'', ''application/json'')],
      json = Inr (JObj [(''status'', JStr ''VALID''), (''abiEncodedRequest'', JStr ''0xab'')])\<rparr>"

definition verifier_created :: http_response where
  "verifier_created = \<lparr>status_http = 201, statusText = ''Created'', headers = [],
      json = Inr (JObj [(''status'', JStr ''VALID''), (''abiEncodedRequest'', JStr ''0xab'')])\<rparr>"

text \<open>A \<open>BigInt\<close> for the concrete inputs: it converts decimal numerals and \<open>bigint\<close> values.\<close>

fun digit_value :: "char \<Rightarrow> int option" where
  "digit_value c = (if (48::int) \<le> of_char c \<and> (of_char c :: int) \<le> 57 then Some (of_char c - 48) else None)"

fun decimal :: "int \<Rightarrow> string \<Rightarrow> int option" where
  "decimal acc [] = Some acc"
| "decimal acc (c # cs) = (case digit_value c of None \<Rightarrow> None | Some d \<Rightarrow> decimal (10 * acc + d) cs)"

fun decimal_BigInt :: "js \<Rightarrow> exn + int" where
  "decimal_BigInt (JBig i) = Inr i"
| "decimal_BigInt (JStr s) =
     (case decimal 0 s of
        None \<Rightarrow> Inl (SyntaxError (''Cannot convert '' @ s @ '' to a BigInt''))
      | Some n \<Rightarrow> Inr n)"
| "decimal_BigInt v = Inl (TypeError ''Cannot convert value to a BigInt'')"

definition payment_proof :: js where
  "payment_proof =
     JObj [(''response'', JObj
         [(''attestationType'', JStr ''0x5061''), (''sourceId'', JStr ''0x7465''),
          (''votingRound'', JStr ''1000''), (''lowestUsedTimestamp'', JStr ''1658519000''),
          (''requestBody'', JObj [(''transactionId'', JStr ''0x4545''), (''inUtxo'', JStr ''0''),
                                  (''utxo'', JStr ''0'')]),
          (''responseBody'', JObj [(''blockNumber'', JStr ''77''), (''blockTimestamp'', JStr ''1658519100''),
             (''sourceAddressHash'', JStr ''0x01''), (''sourceAddressesRoot'', JStr ''0x02''),
             (''receivingAddressHash'', JStr ''0x03''), (''intendedReceivingAddressHash'', JStr ''0x03''),
             (''spentAmount'', JStr ''12''), (''intendedSpentAmount'', JStr ''12''),
             (''receivedAmount'', JStr ''10''), (''intendedReceivedAmount'', JStr ''10''),
             (''standardPaymentReference'', JStr ''0x00''), (''oneToOne'', JBool True),
             (''status'', JNum 0)])]),
        (''proof'', JArr [JStr ''0xaa'', JStr ''0xbb''])]"

definition payment_argument :: js where
  "payment_argument =
     JObj [(''merkleProof'', JArr [JStr ''0xaa'', JStr ''0xbb'']),
       (''data'', JObj
         [(''attestationType'', JStr ''0x5061''), (''sourceId'', JStr ''0x7465''),
          (''votingRound'', JBig 1000), (''lowestUsedTimestamp'', JBig 1658519000),
          (''requestBody'', JObj [(''transactionId'', JStr ''0x4545''), (''inUtxo'', JBig 0),
                                  (''utxo'', JBig 0)]),
          (''responseBody'', JObj [(''blockNumber'', JBig 77), (''blockTimestamp'', JBig 1658519100),
             (''sourceAddressHash'', JStr ''0x01''), (''sourceAddressesRoot'', JStr ''0x02''),
             (''receivingAddressHash'', JStr ''0x03''), (''intendedReceivingAddressHash'', JStr ''0x03''),
             (''spentAmount'', JBig 12), (''intendedSpentAmount'', JBig 12),
             (''receivedAmount'', JBig 10), (''intendedReceivedAmount'', JBig 10),
             (''standardPaymentReference'', JStr ''0x00''), (''oneToOne'', JBool True),
             (''status'', JNum 0)])])]"

definition da_payment :: http_response where
  "da_payment = \<lparr>status_http = 200, statusText = ''OK'', headers = [], json = Inr payment_proof\<rparr>"

definition chain :: read_oracle where
  "chain c a f args =
     (if f = ''getRequestFee'' then Inr (JBig 1000)
      else if f = ''firstVotingRoundStartTs'' then Inr (JBig 1658430000)
      else if f = ''votingEpochDurationSeconds'' then Inr (JBig 90)
      else if f = ''getCurrentVotingEpochId'' then Inr (JBig 1000)
      else if f = ''verifyPayment'' then Inr (JBool True)
      else Inl (Error ''execution reverted''))"

definition unreachable :: read_oracle where
  "unreachable c a f args = Inl (Error ''HTTP request failed'')"

definition happy :: env where
  "happy = \<lparr>addresses = Some loaded, addressError = None, isConnected = True,
     wagmiPublicClient = Some WagmiClient, fallbackPublicClient = Some FallbackClient,
     verifier = (\<lambda>url. Inr verifier_ok),
     rpc_read = chain,
     rpc_block = (\<lambda>c n. Inr (JObj [(''timestamp'', JBig 1658520000)])),
     wallet = (\<lambda>a args v. Inr (JStr ''0xhash'')),
     receipt = Some (JObj [(''blockNumber'', JBig 123)]),
     da_replies = (\<lambda>i. [Inr da_pending, Inr da_payment]),
     toBigInt = decimal_BigInt, toJSON = (\<lambda>v. ''{}''),
     previous = None, previous_da_replies = (\<lambda>i. [])\<rparr>"



definition pending_steps :: "FdcStep list" where
  "pending_steps =
     map (\<lambda>(i, t, d). \<lparr>id_step = i, title = t, description = d, status_step = pending,
                       data_step = None, error_step = None, details = None\<rparr>)
       [(''prepare-request'', ''1. Prepare Request'',
           Text ''Prepare the attestation request using the verifier API''),
        (''submit-request'', ''2. Submit Request'', ReactNode ''Submit the attestation request to the FdcHub contract''),
        (''wait-finalization'', ''3. Wait for Finalization'', Text ''Wait for the voting round to be finalized''),
        (''prepare-proof'', ''4. Prepare Proof Request'',
           Text ''Prepare the proof request using the Data Availability Client''),
        (''verify-data'', ''5. Verify Data'', ReactNode ''Verify the proof using the FdcVerification contract'')]"

definition initial_state :: app_state where
  "initial_state = \<lparr>steps = pending_steps, isLoading = False, error_message = None, success = None,
     currentAttestationData = None, currentAttestationStep = [], proofData = None,
     verificationResult = None, expandedSteps = {}\<rparr>"

section \<open>Evaluation of the concrete inputs\<close>

lemmas da_examples =
  attempt_def fail_then_ready_def retrieveDataAndProof_def da_request_def da_headers_def
  postRequestToDALayer_def ok_def da_failure_def da_ready_def da_pending_def string_of_nat_def
  has_proof_def and_then_def Let_def

section \<open>\<open>toHex\<close>\<close>

lemma digit_char_hex: "d < 16 \<Longrightarrow> is_hex_char (digit_char d)"
  unfolding is_hex_char_def digit_char_def by (rule nth_mem) simp

lemma toString_radix_hex: "list_all is_hex_char (toString_radix 16 n)"
proof (induction "16::nat" n rule: toString_radix.induct)
  case (1 n)
  show ?case
  proof (cases "n < 16")
    case True
    then show ?thesis by (simp add: toString_radix.simps [of 16 n] digit_char_hex)
  next
    case False
    with 1 show ?thesis by (simp add: toString_radix.simps [of 16 n] digit_char_hex)
  qed
qed

lemma toString16_length: "n < 256 \<Longrightarrow> length (toString16 n) \<le> 2"
  unfolding toString16_def
  by (simp add: toString_radix.simps [of 16 n] toString_radix.simps [of 16 "n div 16"] less_mult_imp_div_less)

lemma toHex_loop_concat:
  "toHex_loop result data = result @ concat (map (\<lambda>c. toString16 (of_char c)) data)"
  by (induction data arbitrary: result) simp_all

lemma hex_codes_length:
  "\<forall>c\<in>set data. (of_char c :: nat) < 128 \<Longrightarrow> length (concat (map (\<lambda>c. toString16 (of_char c)) data)) \<le> 2 * length data"
proof (induction data)
  case Nil
  then show ?case by simp
next
  case (Cons c cs)
  have "length (toString16 (of_char c)) \<le> 2" using Cons.prems by (intro toString16_length) simp
  with Cons show ?case by simp
qed

lemma hex_codes_hex: "list_all is_hex_char (concat (map (\<lambda>c. toString16 (of_char c)) data))"
  by (induction data) (simp_all add: toString16_def toString_radix_hex)

text \<open>
  C9. For every input string of at most 32 ASCII characters (character codes below 128),
  \<open>toHex\<close> returns \<open>0x\<close> followed by exactly 64 hexadecimal characters: the hexadecimal
  character codes of the input, one after the other, padded on the right with \<open>0\<close> to the
  length 64. The empty string gives \<open>0x\<close> and 64 zeros.
\<close>

theorem toHex_ascii:
  "(length data \<le> 32 \<and> list_all (\<lambda>c. (of_char c :: nat) < 128) data \<longrightarrow>
     toHex data = ''0x'' @ padEnd (concat (map (\<lambda>c. toString16 (of_char c)) data)) 64 CHR ''0''
     \<and> length (toHex data) = 2 + 64
     \<and> list_all is_hex_char (drop 2 (toHex data)))
   \<and> toHex [] = ''0x'' @ replicate 64 CHR ''0''"
proof (intro conjI impI)
  let ?h = "concat (map (\<lambda>c. toString16 (of_char c)) data)"
  assume a: "length data \<le> 32 \<and> list_all (\<lambda>c. (of_char c :: nat) < 128) data"
  then have len: "length data \<le> 32" and ascii: "list_all (\<lambda>c. (of_char c :: nat) < 128) data"
    by simp_all
  from ascii have "\<forall>c\<in>set data. (of_char c :: nat) < 128" by (simp add: list_all_iff)
  then have "length ?h \<le> 2 * length data" by (rule hex_codes_length)
  with len have le: "length ?h \<le> 64" by simp
  show eq: "toHex data = ''0x'' @ padEnd ?h 64 CHR ''0''"
    by (simp add: toHex_def toHex_loop_concat)
  have l: "length (padEnd ?h 64 CHR ''0'') = 64" using le by (simp add: padEnd_def)
  have h: "list_all is_hex_char (padEnd ?h 64 CHR ''0'')"
  proof -
    have "is_hex_char CHR ''0''" by (simp add: is_hex_char_def)
    then have "list_all is_hex_char (replicate (64 - length ?h) CHR ''0'')"
      by (simp add: list_all_iff)
    with hex_codes_hex [of data] show ?thesis by (simp add: padEnd_def)
  qed
  show "length (toHex data) = 2 + 64" using l by (simp add: eq)
  show "list_all is_hex_char (drop 2 (toHex data))" using h by (simp add: eq)
next
  show "toHex [] = ''0x'' @ replicate 64 CHR ''0''"
    by (simp add: toHex_def padEnd_def)
qed

text \<open>
  The theorem at \<open>Payment\<close>, the attestation type of the workflow; the value is the constant
  the component sends to the verifier.
\<close>

theorem toHex_ascii_witness:
  "length ''Payment'' \<le> 32 \<and> list_all (\<lambda>c. (of_char c :: nat) < 128) ''Payment''
   \<and> length (toHex ''Payment'') = 66
   \<and> toHex ''Payment'' = ''0x5061796d656e7400000000000000000000000000000000000000000000000000''"
proof -
  have h: "length ''Payment'' \<le> 32 \<and> list_all (\<lambda>c. (of_char c :: nat) < 128) ''Payment''"
    by simp
  have v: "toHex ''Payment'' = ''0x5061796d656e7400000000000000000000000000000000000000000000000000''"
    by code_simp
  from toHex_ascii [of "''Payment''", THEN conjunct1, THEN mp, OF h]
  have "length (toHex ''Payment'') = 2 + 64" by (elim conjE)
  with h v show ?thesis by simp
qed

section \<open>\<open>updateStepStatus\<close>\<close>

text \<open>
  C10. \<open>updateStepStatus\<close> changes only the steps whose id is the given one: the list keeps
  its length and its order, every step with another id is returned as it was, and a step
  with the given id keeps its id, title, description and details while its status, data
  and error become the given ones.
\<close>

theorem updateStepStatus_frame:
  "length (updateStepStatus stepId st d e prev) = length prev
   \<and> map id_step (updateStepStatus stepId st d e prev) = map id_step prev
   \<and> (\<forall>i < length prev.
        (id_step (prev ! i) \<noteq> stepId \<longrightarrow> updateStepStatus stepId st d e prev ! i = prev ! i)
      \<and> (id_step (prev ! i) = stepId \<longrightarrow>
           updateStepStatus stepId st d e prev ! i
             = (prev ! i)\<lparr>status_step := st, data_step := d, error_step := e\<rparr>
         \<and> id_step (updateStepStatus stepId st d e prev ! i) = id_step (prev ! i)
         \<and> title (updateStepStatus stepId st d e prev ! i) = title (prev ! i)
         \<and> description (updateStepStatus stepId st d e prev ! i) = description (prev ! i)
         \<and> details (updateStepStatus stepId st d e prev ! i) = details (prev ! i)
         \<and> status_step (updateStepStatus stepId st d e prev ! i) = st
         \<and> data_step (updateStepStatus stepId st d e prev ! i) = d
         \<and> error_step (updateStepStatus stepId st d e prev ! i) = e))"
  by (simp add: updateStepStatus_def)

theorem updateStepStatus_frame_witness:
  "(1::nat) < length two_steps \<and> id_step (two_steps ! 1) = ''submit-request''
   \<and> id_step (two_steps ! 0) \<noteq> ''submit-request''
   \<and> updateStepStatus ''submit-request'' in_progress None None two_steps ! 0 = two_steps ! 0
   \<and> status_step (updateStepStatus ''submit-request'' in_progress None None two_steps ! 1) = in_progress
   \<and> title (updateStepStatus ''submit-request'' in_progress None None two_steps ! 1) = ''2. Submit Request''"
  using updateStepStatus_frame [of "''submit-request''" in_progress None None two_steps]
  by (simp add: two_steps_def)

section \<open>\<open>retrieveDataAndProof\<close>\<close>

lemma has_proof_predicate: "has_proof v = Inr True \<Longrightarrow> proof_predicate v"
  by (cases v)
     (auto simp: has_proof_def proof_predicate_def present_def and_then_def
           split: if_splits option.splits)

lemma poll_returns_proof:
  "poll request replies = (Some (Inr v), effects) \<Longrightarrow> has_proof v = Inr True"
proof (induction replies arbitrary: effects)
  case Nil
  then show ?case by simp
next
  case (Cons fetched replies)
  then show ?case
    by (auto split: sum.splits bool.splits prod.splits)
qed

lemma poll_until_proof:
  assumes "list_all not_yet waiting" "postRequestToDALayer fetched = Inr v" "has_proof v = Inr True"
  shows "poll request (waiting @ fetched # rest)
           = (Some (Inr v), concat (replicate (Suc (length waiting)) [Sleep 10000, request]))"
  using assms by (induction waiting) (auto simp: not_yet_def split: sum.splits)

lemma poll_still_waiting:
  "list_all not_yet waiting \<Longrightarrow>
     poll request waiting = (None, concat (replicate (Suc (length waiting)) [Sleep 10000, request]))"
  by (induction waiting) (auto simp: not_yet_def split: sum.splits)

lemma poll_effects:
  "\<exists>n \<le> length replies. snd (poll request replies) = concat (replicate (Suc n) [Sleep 10000, request])"
proof (induction replies)
  case Nil
  then show ?case by simp
next
  case (Cons fetched replies)
  then obtain n where n: "n \<le> length replies"
    "snd (poll request replies) = concat (replicate (Suc n) [Sleep 10000, request])" by blast
  show ?case
  proof (cases "not_yet fetched")
    case True
    then have "snd (poll request (fetched # replies))
                 = concat (replicate (Suc (Suc n)) [Sleep 10000, request])"
      using n(2) by (auto simp: not_yet_def split: sum.splits prod.splits)
    with n(1) show ?thesis by (intro exI [of _ "Suc n"]) simp
  next
    case False
    then have "snd (poll request (fetched # replies)) = concat (replicate (Suc 0) [Sleep 10000, request])"
      by (auto simp: not_yet_def split: sum.splits bool.splits)
    then show ?thesis by (intro exI [of _ 0]) simp
  qed
qed

text \<open>
  C4 as stated fails in its second half: the function does not stop at the first reply that
  satisfies the predicate of a proof. The check of the source reads \<open>response\<close> and \<open>proof\<close> by
  their truthiness. A reply \<open>{response: 0, proof: ['0x01']}\<close> has both fields, and its \<open>proof\<close>
  is an array, so it satisfies the predicate; \<open>0\<close> is falsy, so the function has not returned
  after it, and when a reply with a truthy \<open>response\<close> comes next, that later reply is the
  value returned.
\<close>

theorem retrieveDataAndProof_polls_past_predicate:
  "postRequestToDALayer (Inr da_zero) = Inr (JObj [(''response'', JNum 0), (''proof'', JArr [JStr ''0x01''])])
   \<and> proof_predicate (JObj [(''response'', JNum 0), (''proof'', JArr [JStr ''0x01''])])
   \<and> fst (retrieveDataAndProof ''/api/proof-request'' (JStr ''0xab'') (JNum 7) ''key'' [Inr da_zero]) = None
   \<and> retrieveDataAndProof ''/api/proof-request'' (JStr ''0xab'') (JNum 7) ''key'' [Inr da_zero, Inr da_ready]
       = (Some (Inr (JObj [(''response'', JObj [(''votingRound'', JStr ''7'')]), (''proof'', JArr [])])),
          [Sleep 30000, Sleep 10000, da_request ''/api/proof-request'' (JStr ''0xab'') (JNum 7) ''key'',
           Sleep 10000, da_request ''/api/proof-request'' (JStr ''0xab'') (JNum 7) ''key''])"
  by (simp add: proof_predicate_def present_def da_zero_def da_examples)

text \<open>
  C4, amended. Whenever \<open>retrieveDataAndProof\<close> returns a value, the value has passed the check
  of the source, \<open>proof.response && proof.proof && Array.isArray(proof.proof)\<close>, and so
  satisfies the predicate of a proof: \<open>response\<close> is there, \<open>proof\<close> is there, and \<open>proof\<close> is an
  array. The function polls until a reply passes that check, which asks for a truthy
  \<open>response\<close> and a truthy \<open>proof\<close>: after any number of well-formed replies that do not pass
  it, the first reply that does is returned, one request having been sent for every reply;
  and while only replies that do not pass it have come, the function has not returned.
\<close>

theorem retrieveDataAndProof_returns_proof:
  "(retrieveDataAndProof url abiEncodedRequest roundId apiKey replies = (Some (Inr v), effects)
      \<longrightarrow> has_proof v = Inr True \<and> proof_predicate v)
   \<and> (list_all not_yet waiting \<and> postRequestToDALayer fetched = Inr p \<and> has_proof p = Inr True
      \<longrightarrow> retrieveDataAndProof url abiEncodedRequest roundId apiKey (waiting @ fetched # rest)
            = (Some (Inr p),
               [Sleep 30000, Sleep 10000, da_request url abiEncodedRequest roundId apiKey]
               @ concat (replicate (length waiting)
                   [Sleep 10000, da_request url abiEncodedRequest roundId apiKey])))
   \<and> (list_all not_yet waiting
      \<longrightarrow> fst (retrieveDataAndProof url abiEncodedRequest roundId apiKey waiting) = None)"
proof (intro conjI impI)
  assume "retrieveDataAndProof url abiEncodedRequest roundId apiKey replies = (Some (Inr v), effects)"
  then show "has_proof v = Inr True"
    by (auto simp: retrieveDataAndProof_def Let_def
             split: list.splits sum.splits bool.splits prod.splits dest: poll_returns_proof)
  then show "proof_predicate v" by (rule has_proof_predicate)
next
  assume a: "list_all not_yet waiting \<and> postRequestToDALayer fetched = Inr p \<and> has_proof p = Inr True"
  show "retrieveDataAndProof url abiEncodedRequest roundId apiKey (waiting @ fetched # rest)
            = (Some (Inr p),
               [Sleep 30000, Sleep 10000, da_request url abiEncodedRequest roundId apiKey]
               @ concat (replicate (length waiting)
                   [Sleep 10000, da_request url abiEncodedRequest roundId apiKey]))"
  proof (cases waiting)
    case Nil
    with a show ?thesis by (simp add: retrieveDataAndProof_def Let_def)
  next
    case (Cons w ws)
    with a have "list_all not_yet ws" and w: "not_yet w" by simp_all
    with a have "poll (da_request url abiEncodedRequest roundId apiKey) (ws @ fetched # rest)
           = (Some (Inr p), concat (replicate (Suc (length ws))
                 [Sleep 10000, da_request url abiEncodedRequest roundId apiKey]))"
      by (intro poll_until_proof) simp_all
    with w Cons show ?thesis
      by (auto simp: retrieveDataAndProof_def Let_def not_yet_def split: sum.splits)
  qed
next
  assume a: "list_all not_yet waiting"
  show "fst (retrieveDataAndProof url abiEncodedRequest roundId apiKey waiting) = None"
  proof (cases waiting)
    case Nil
    then show ?thesis by (simp add: retrieveDataAndProof_def Let_def)
  next
    case (Cons w ws)
    with a have "list_all not_yet ws" and w: "not_yet w" by simp_all
    then have "poll (da_request url abiEncodedRequest roundId apiKey) ws
           = (None, concat (replicate (Suc (length ws))
                 [Sleep 10000, da_request url abiEncodedRequest roundId apiKey]))"
      by (intro poll_still_waiting)
    with w Cons show ?thesis
      by (auto simp: retrieveDataAndProof_def Let_def not_yet_def split: sum.splits)
  qed
qed

theorem retrieveDataAndProof_returns_proof_witness:
  "retrieveDataAndProof ''/api/proof-request'' (JStr ''0xab'') (JNum 7) ''key''
     [Inr da_pending, Inr da_pending, Inr da_ready]
     = (Some (Inr (JObj [(''response'', JObj [(''votingRound'', JStr ''7'')]), (''proof'', JArr [])])),
        [Sleep 30000, Sleep 10000, da_request ''/api/proof-request'' (JStr ''0xab'') (JNum 7) ''key'',
         Sleep 10000, da_request ''/api/proof-request'' (JStr ''0xab'') (JNum 7) ''key'',
         Sleep 10000, da_request ''/api/proof-request'' (JStr ''0xab'') (JNum 7) ''key''])
   \<and> proof_predicate (JObj [(''response'', JObj [(''votingRound'', JStr ''7'')]), (''proof'', JArr [])])
   \<and> fst (retrieveDataAndProof ''/api/proof-request'' (JStr ''0xab'') (JNum 7) ''key''
            [Inr da_pending, Inr da_pending]) = None"
proof -
  let ?v = "JObj [(''response'', JObj [(''votingRound'', JStr ''7'')]), (''proof'', JArr [])]"
  have w: "list_all not_yet [Inr da_pending, Inr da_pending]"
    by (simp add: not_yet_def da_examples)
  have h: "list_all not_yet [Inr da_pending, Inr da_pending]
           \<and> postRequestToDALayer (Inr da_ready) = Inr ?v \<and> has_proof ?v = Inr True"
    by (simp add: not_yet_def da_examples)
  note t = retrieveDataAndProof_returns_proof
    [where url = "''/api/proof-request''" and abiEncodedRequest = "JStr ''0xab''" and roundId = "JNum 7"
       and apiKey = "''key''" and replies = "[Inr da_pending, Inr da_pending, Inr da_ready]"
       and v = ?v and waiting = "[Inr da_pending, Inr da_pending]" and fetched = "Inr da_ready"
       and p = ?v and rest = "[]"]
  note run = t [THEN conjunct2, THEN conjunct1, THEN mp, OF h]
  note pred = t [THEN conjunct1, THEN mp]
  note wait = t [THEN conjunct2, THEN conjunct2, THEN mp, OF w]
  from run have r: "retrieveDataAndProof ''/api/proof-request'' (JStr ''0xab'') (JNum 7) ''key''
     [Inr da_pending, Inr da_pending, Inr da_ready]
     = (Some (Inr ?v),
        [Sleep 30000, Sleep 10000, da_request ''/api/proof-request'' (JStr ''0xab'') (JNum 7) ''key'',
         Sleep 10000, da_request ''/api/proof-request'' (JStr ''0xab'') (JNum 7) ''key'',
         Sleep 10000, da_request ''/api/proof-request'' (JStr ''0xab'') (JNum 7) ''key''])"
    by simp
  from pred [OF r] r wait show ?thesis by simp
qed

text \<open>
  C5. The delays of \<open>retrieveDataAndProof\<close> are fixed. Every execution waits 30000 ms for the
  round, then 10000 ms, then sends the first request; each further request comes after
  exactly one wait of 10000 ms. The effects of the function are nothing else.
\<close>

theorem retrieveDataAndProof_delays:
  "\<exists>n \<le> length replies.
      snd (retrieveDataAndProof url abiEncodedRequest roundId apiKey replies)
        = [Sleep 30000, Sleep 10000, da_request url abiEncodedRequest roundId apiKey]
          @ concat (replicate n [Sleep 10000, da_request url abiEncodedRequest roundId apiKey])"
proof (cases replies)
  case Nil
  then show ?thesis by (simp add: retrieveDataAndProof_def Let_def)
next
  case (Cons fetched rest)
  show ?thesis
  proof (cases "not_yet fetched")
    case True
    obtain n where n: "n \<le> length rest"
      "snd (poll (da_request url abiEncodedRequest roundId apiKey) rest)
         = concat (replicate (Suc n) [Sleep 10000, da_request url abiEncodedRequest roundId apiKey])"
      using poll_effects by blast
    from True n(2) Cons have "snd (retrieveDataAndProof url abiEncodedRequest roundId apiKey replies)
        = [Sleep 30000, Sleep 10000, da_request url abiEncodedRequest roundId apiKey]
          @ concat (replicate (Suc n) [Sleep 10000, da_request url abiEncodedRequest roundId apiKey])"
      by (auto simp: retrieveDataAndProof_def Let_def not_yet_def split: sum.splits prod.splits)
    with n(1) Cons show ?thesis by (intro exI [of _ "Suc n"]) simp
  next
    case False
    with Cons have "snd (retrieveDataAndProof url abiEncodedRequest roundId apiKey replies)
        = [Sleep 30000, Sleep 10000, da_request url abiEncodedRequest roundId apiKey]"
      by (auto simp: retrieveDataAndProof_def Let_def not_yet_def split: sum.splits bool.splits)
    then show ?thesis by (intro exI [of _ 0]) simp
  qed
qed

theorem retrieveDataAndProof_delays_witness:
  "\<exists>n \<le> length [Inr da_pending, Inr da_pending, Inr da_ready :: fetch_result].
      snd (retrieveDataAndProof ''/api/proof-request'' (JStr ''0xab'') (JNum 7) ''key''
             [Inr da_pending, Inr da_pending, Inr da_ready])
     = [Sleep 30000, Sleep 10000, da_request ''/api/proof-request'' (JStr ''0xab'') (JNum 7) ''key'']
       @ concat (replicate n [Sleep 10000, da_request ''/api/proof-request'' (JStr ''0xab'') (JNum 7) ''key''])"
  using retrieveDataAndProof_delays
    [of "[Inr da_pending, Inr da_pending, Inr da_ready]" "''/api/proof-request''" "JStr ''0xab''" "JNum 7" "''key''"]
  by this

section \<open>\<open>retrieveDataAndProofWithRetry\<close>\<close>

lemma retry_from_all_fail:
  "(\<forall>j. i \<le> j \<and> int j < attempts \<longrightarrow> (\<exists>e. fst (retrieve j) = Some (Inl e))) \<Longrightarrow>
     retry_from retrieve attempts i
       = (Some (Inl (retry_message attempts)),
          concat (map (\<lambda>j. snd (retrieve j) @ [Sleep 20000]) [i..<nat attempts]))"
proof (induction retrieve attempts i rule: retry_from.induct)
  case (1 retrieve attempts i)
  show ?case
  proof (cases "int i < attempts")
    case False
    then show ?thesis by (simp add: retry_from.simps [of retrieve attempts i] retry_message_def)
  next
    case True
    with 1(2) obtain e where e: "fst (retrieve i) = Some (Inl e)" by blast
    then obtain effects where r: "retrieve i = (Some (Inl e), effects)" by (cases "retrieve i") simp
    have ih: "retry_from retrieve attempts (Suc i)
       = (Some (Inl (retry_message attempts)),
          concat (map (\<lambda>j. snd (retrieve j) @ [Sleep 20000]) [Suc i..<nat attempts]))"
      using 1(1) [OF True r [symmetric] refl refl] 1(2) by simp
    from True have "[i..<nat attempts] = i # [Suc i..<nat attempts]"
      by (simp add: upt_conv_Cons)
    with True r ih show ?thesis
      by (simp add: retry_from.simps [of retrieve attempts i])
  qed
qed

lemma retry_from_first_success:
  "i \<le> k \<Longrightarrow> int k < attempts \<Longrightarrow> fst (retrieve k) = Some (Inr v) \<Longrightarrow>
   (\<forall>j. i \<le> j \<and> j < k \<longrightarrow> (\<exists>e. fst (retrieve j) = Some (Inl e))) \<Longrightarrow>
     retry_from retrieve attempts i
       = (Some (Inr v),
          concat (map (\<lambda>j. snd (retrieve j) @ [Sleep 20000]) [i..<k]) @ snd (retrieve k))"
proof (induction retrieve attempts i rule: retry_from.induct)
  case (1 retrieve attempts i)
  from 1(2,3) have lt: "int i < attempts" by simp
  show ?case
  proof (cases "i = k")
    case True
    with 1(4) obtain effects where "retrieve i = (Some (Inr v), effects)" by (cases "retrieve i") simp
    with True lt show ?thesis by (simp add: retry_from.simps [of retrieve attempts k])
  next
    case False
    with 1(2) have ik: "i < k" by simp
    with 1(5) obtain e where "fst (retrieve i) = Some (Inl e)" by blast
    then obtain effects where r: "retrieve i = (Some (Inl e), effects)" by (cases "retrieve i") simp
    have ih: "retry_from retrieve attempts (Suc i)
       = (Some (Inr v),
          concat (map (\<lambda>j. snd (retrieve j) @ [Sleep 20000]) [Suc i..<k]) @ snd (retrieve k))"
      using 1(1) [OF lt r [symmetric] refl refl] ik 1(3,4,5) by simp
    from ik have "[i..<k] = i # [Suc i..<k]" by (simp add: upt_conv_Cons)
    with lt r ih show ?thesis by (simp add: retry_from.simps [of retrieve attempts i])
  qed
qed

lemma retry_from_cong:
  "(\<forall>j. int j < attempts \<longrightarrow> retrieve j = retrieve' j) \<Longrightarrow>
     retry_from retrieve attempts i = retry_from retrieve' attempts i"
proof (induction retrieve attempts i rule: retry_from.induct)
  case (1 retrieve attempts i)
  show ?case
  proof (cases "int i < attempts")
    case False
    then show ?thesis
      by (simp add: retry_from.simps [of retrieve attempts i] retry_from.simps [of retrieve' attempts i])
  next
    case True
    with 1(2) have eq: "retrieve' i = retrieve i" by simp
    show ?thesis
    proof (cases "retrieve i")
      case (Pair r effects)
      show ?thesis
      proof (cases r)
        case None
        with Pair True eq show ?thesis
          by (simp add: retry_from.simps [of retrieve attempts i] retry_from.simps [of retrieve' attempts i])
      next
        case (Some x)
        show ?thesis
        proof (cases x)
          case (Inr v)
          with Pair Some True eq show ?thesis
            by (simp add: retry_from.simps [of retrieve attempts i] retry_from.simps [of retrieve' attempts i])
        next
          case (Inl e)
          with Pair Some have r: "retrieve i = (Some (Inl e), effects)" by simp
          have "retry_from retrieve attempts (Suc i) = retry_from retrieve' attempts (Suc i)"
            using 1(1) [OF True r [symmetric] refl refl] 1(2) by simp
          with r True eq show ?thesis
            by (simp add: retry_from.simps [of retrieve attempts i] retry_from.simps [of retrieve' attempts i])
        qed
      qed
    qed
  qed
qed

lemma retry_from_count:
  "(\<forall>j. length (filter P (snd (retrieve j))) = 1) \<Longrightarrow> \<not> P (Sleep 20000) \<Longrightarrow>
     length (filter P (snd (retry_from retrieve attempts i))) \<le> nat attempts - i"
proof (induction retrieve attempts i rule: retry_from.induct)
  case (1 retrieve attempts i)
  show ?case
  proof (cases "int i < attempts")
    case False
    then show ?thesis by (simp add: retry_from.simps [of retrieve attempts i])
  next
    case True
    have one: "length (filter P (snd (retrieve i))) = 1" using 1(2) by blast
    show ?thesis
    proof (cases "retrieve i")
      case (Pair r effects)
      show ?thesis
      proof (cases r)
        case None
        with Pair True one show ?thesis
          by (simp add: retry_from.simps [of retrieve attempts i])
      next
        case (Some x)
        show ?thesis
        proof (cases x)
          case (Inr v)
          with Pair Some True one show ?thesis
            by (simp add: retry_from.simps [of retrieve attempts i])
        next
          case (Inl e)
          with Pair Some have r: "retrieve i = (Some (Inl e), effects)" by simp
          have "length (filter P (snd (retry_from retrieve attempts (Suc i)))) \<le> nat attempts - Suc i"
            using 1(1) [OF True r [symmetric] refl refl] 1(2,3) by simp
          with r True one 1(3) show ?thesis
            by (auto simp add: retry_from.simps [of retrieve attempts i] split: prod.splits)
        qed
      qed
    qed
  qed
qed

lemma poll_no_long_sleep:
  "poll (Fetch u h b) replies = (r, effects) \<Longrightarrow> filter (\<lambda>e. e = Sleep 30000) effects = []"
  by (induction replies arbitrary: r effects) (auto split: sum.splits bool.splits prod.splits)

lemma retrieveDataAndProof_one_call:
  "length (filter (\<lambda>e. e = Sleep 30000) (snd (retrieveDataAndProof url abiEncodedRequest roundId apiKey replies))) = 1"
  by (auto simp: retrieveDataAndProof_def Let_def da_request_def poll_no_long_sleep
           split: list.splits sum.splits bool.splits prod.splits)

text \<open>
  C3. \<open>retrieveDataAndProofWithRetry\<close> calls \<open>retrieveDataAndProof\<close> at most \<open>attempts\<close> times
  (10 by default). It returns the first successful result: when call \<open>k\<close> is the first to
  return, its value is returned after the calls 0 to \<open>k\<close>, with a wait of 20000 ms after each
  failed one. When every one of the \<open>attempts\<close> calls throws, the function throws
  \<open>Failed to retrieve data and proofs after {attempts} attempts\<close>, after the last call and
  a wait of 20000 ms after each call. The calls are counted by the 30000 ms wait each one
  begins with, and what a call beyond the \<open>attempts\<close>-th would do has no influence.
\<close>

theorem retrieveDataAndProofWithRetry_attempts:
  "(k < nat n \<and> fst (attempt url abi roundId apiKey replies k) = Some (Inr v)
      \<and> (\<forall>j<k. \<exists>e. fst (attempt url abi roundId apiKey replies j) = Some (Inl e))
    \<longrightarrow> retrieveDataAndProofWithRetry url abi roundId apiKey (Some n) replies
          = (Some (Inr v),
             concat (map (\<lambda>j. snd (attempt url abi roundId apiKey replies j) @ [Sleep 20000]) [0..<k])
             @ snd (attempt url abi roundId apiKey replies k)))
   \<and> ((\<forall>j < nat n. \<exists>e. fst (attempt url abi roundId apiKey replies j) = Some (Inl e))
    \<longrightarrow> retrieveDataAndProofWithRetry url abi roundId apiKey (Some n) replies
          = (Some (Inl (Error (''Failed to retrieve data and proofs after '' @ string_of_int n
                               @ '' attempts''))),
             concat (map (\<lambda>j. snd (attempt url abi roundId apiKey replies j) @ [Sleep 20000])
                       [0..<nat n])))
   \<and> length (filter (\<lambda>e. e = Sleep 30000)
         (snd (retrieveDataAndProofWithRetry url abi roundId apiKey (Some n) replies))) \<le> nat n
   \<and> ((\<forall>j < nat n. replies j = replies' j)
    \<longrightarrow> retrieveDataAndProofWithRetry url abi roundId apiKey (Some n) replies
          = retrieveDataAndProofWithRetry url abi roundId apiKey (Some n) replies')
   \<and> retrieveDataAndProofWithRetry url abi roundId apiKey None replies
       = retrieveDataAndProofWithRetry url abi roundId apiKey (Some 10) replies"
proof (intro conjI impI)
  assume a: "k < nat n \<and> fst (attempt url abi roundId apiKey replies k) = Some (Inr v)
      \<and> (\<forall>j<k. \<exists>e. fst (attempt url abi roundId apiKey replies j) = Some (Inl e))"
  then have "int k < n" by linarith
  with a show "retrieveDataAndProofWithRetry url abi roundId apiKey (Some n) replies
          = (Some (Inr v),
             concat (map (\<lambda>j. snd (attempt url abi roundId apiKey replies j) @ [Sleep 20000]) [0..<k])
             @ snd (attempt url abi roundId apiKey replies k))"
    unfolding retrieveDataAndProofWithRetry_def
    by (simp add: retry_from_first_success)
next
  assume "\<forall>j < nat n. \<exists>e. fst (attempt url abi roundId apiKey replies j) = Some (Inl e)"
  then have "\<forall>j. 0 \<le> j \<and> int j < n \<longrightarrow> (\<exists>e. fst (attempt url abi roundId apiKey replies j) = Some (Inl e))"
    by (metis zless_nat_eq_int_zless)
  then show "retrieveDataAndProofWithRetry url abi roundId apiKey (Some n) replies
          = (Some (Inl (Error (''Failed to retrieve data and proofs after '' @ string_of_int n
                               @ '' attempts''))),
             concat (map (\<lambda>j. snd (attempt url abi roundId apiKey replies j) @ [Sleep 20000])
                       [0..<nat n]))"
    unfolding retrieveDataAndProofWithRetry_def
    by (simp add: retry_from_all_fail retry_message_def)
next
  have "length (filter (\<lambda>e. e = Sleep 30000)
          (snd (retry_from (attempt url abi roundId apiKey replies) n 0))) \<le> nat n - 0"
    by (rule retry_from_count) (simp_all add: attempt_def retrieveDataAndProof_one_call)
  then show "length (filter (\<lambda>e. e = Sleep 30000)
         (snd (retrieveDataAndProofWithRetry url abi roundId apiKey (Some n) replies))) \<le> nat n"
    by (simp add: retrieveDataAndProofWithRetry_def)
next
  assume "\<forall>j < nat n. replies j = replies' j"
  then have "\<forall>j. int j < n \<longrightarrow> attempt url abi roundId apiKey replies j = attempt url abi roundId apiKey replies' j"
    by (simp add: attempt_def zless_nat_eq_int_zless [symmetric])
  then show "retrieveDataAndProofWithRetry url abi roundId apiKey (Some n) replies
          = retrieveDataAndProofWithRetry url abi roundId apiKey (Some n) replies'"
    unfolding retrieveDataAndProofWithRetry_def by (simp add: retry_from_cong)
next
  show "retrieveDataAndProofWithRetry url abi roundId apiKey None replies
       = retrieveDataAndProofWithRetry url abi roundId apiKey (Some 10) replies"
    by (simp add: retrieveDataAndProofWithRetry_def)
qed

theorem retrieveDataAndProofWithRetry_attempts_witness:
  "retrieveDataAndProofWithRetry ''/api/proof-request'' (JStr ''0xab'') (JNum 7) ''key'' (Some 3) fail_then_ready
     = (Some (Inr (JObj [(''response'', JObj [(''votingRound'', JStr ''7'')]), (''proof'', JArr [])])),
        [Sleep 30000, Sleep 10000, da_request ''/api/proof-request'' (JStr ''0xab'') (JNum 7) ''key'',
         Sleep 20000,
         Sleep 30000, Sleep 10000, da_request ''/api/proof-request'' (JStr ''0xab'') (JNum 7) ''key''])
   \<and> fst (retrieveDataAndProofWithRetry ''/api/proof-request'' (JStr ''0xab'') (JNum 7) ''key'' (Some 2)
            (\<lambda>i. [Inr da_failure]))
     = Some (Inl (Error ''Failed to retrieve data and proofs after 2 attempts''))
   \<and> retrieveDataAndProofWithRetry ''/api/proof-request'' (JStr ''0xab'') (JNum 7) ''key'' (Some 3)
        fail_then_ready
     = retrieveDataAndProofWithRetry ''/api/proof-request'' (JStr ''0xab'') (JNum 7) ''key'' (Some 3)
        (\<lambda>i. if i < 3 then fail_then_ready i else [])"
proof -
  have h3: "\<forall>j < nat 3. fail_then_ready j = (\<lambda>i. if i < 3 then fail_then_ready i else []) j"
    by simp
  note t3 = retrieveDataAndProofWithRetry_attempts
    [of 1 3 "''/api/proof-request''" "JStr ''0xab''" "JNum 7" "''key''" fail_then_ready
        JNull "\<lambda>i. if i < 3 then fail_then_ready i else []",
     THEN conjunct2, THEN conjunct2, THEN conjunct2, THEN conjunct1, THEN mp, OF h3]
  have h0: "fst (attempt ''/api/proof-request'' (JStr ''0xab'') (JNum 7) ''key'' fail_then_ready 0)
              = Some (Inl (Error ''DA Layer request failed: 400 Bad Request''))"
    by (simp add: da_examples toString_radix.simps [of 10 400] toString_radix.simps [of 10 40] toString_radix.simps [of 10 4] digit_char_def)
  have h1: "fst (attempt ''/api/proof-request'' (JStr ''0xab'') (JNum 7) ''key'' fail_then_ready 1)
              = Some (Inr (JObj [(''response'', JObj [(''votingRound'', JStr ''7'')]), (''proof'', JArr [])]))"
    by (simp add: da_examples)
  have h2: "\<forall>j < nat 2. \<exists>e. fst (attempt ''/api/proof-request'' (JStr ''0xab'') (JNum 7) ''key'' (\<lambda>i. [Inr da_failure]) j) = Some (Inl e)"
    by (simp add: da_examples)
  have a: "(1::nat) < nat 3 \<and> fst (attempt ''/api/proof-request'' (JStr ''0xab'') (JNum 7) ''key'' fail_then_ready 1)
              = Some (Inr (JObj [(''response'', JObj [(''votingRound'', JStr ''7'')]), (''proof'', JArr [])]))
      \<and> (\<forall>j<1. \<exists>e. fst (attempt ''/api/proof-request'' (JStr ''0xab'') (JNum 7) ''key'' fail_then_ready j) = Some (Inl e))"
    using h0 h1 by simp
  note t1 = retrieveDataAndProofWithRetry_attempts
    [of 1 3 "''/api/proof-request''" "JStr ''0xab''" "JNum 7" "''key''" fail_then_ready
        "JObj [(''response'', JObj [(''votingRound'', JStr ''7'')]), (''proof'', JArr [])]" fail_then_ready,
     THEN conjunct1, THEN mp, OF a]
  note t2 = retrieveDataAndProofWithRetry_attempts
    [of 0 2 "''/api/proof-request''" "JStr ''0xab''" "JNum 7" "''key''" "\<lambda>i. [Inr da_failure]" JNull "\<lambda>i. [Inr da_failure]",
     THEN conjunct2, THEN conjunct1, THEN mp, OF h2]
  have s2: "string_of_int 2 = ''2''"
    by (simp add: string_of_int_def string_of_nat_def toString_radix.simps [of 10 2] digit_char_def)
  have "retrieveDataAndProofWithRetry ''/api/proof-request'' (JStr ''0xab'') (JNum 7) ''key'' (Some 3) fail_then_ready
     = (Some (Inr (JObj [(''response'', JObj [(''votingRound'', JStr ''7'')]), (''proof'', JArr [])])),
        [Sleep 30000, Sleep 10000, da_request ''/api/proof-request'' (JStr ''0xab'') (JNum 7) ''key'',
         Sleep 20000,
         Sleep 30000, Sleep 10000, da_request ''/api/proof-request'' (JStr ''0xab'') (JNum 7) ''key''])
   \<and> fst (retrieveDataAndProofWithRetry ''/api/proof-request'' (JStr ''0xab'') (JNum 7) ''key'' (Some 2)
            (\<lambda>i. [Inr da_failure]))
     = Some (Inl (Error ''Failed to retrieve data and proofs after 2 attempts''))"
    using t1 t2 by (simp add: s2) (simp add: da_examples)
  with t3 show ?thesis by simp
qed

section \<open>\<open>prepareAttestationRequestBase\<close>\<close>

text \<open>
  C7. \<open>prepareAttestationRequestBase\<close> returns the parsed JSON body of the verifier exactly
  when the status of the response is 200; for every other status, the other 2xx statuses
  included, it throws an error whose message begins with \<open>Response status is not OK\<close>. The
  request it sends always holds \<open>attestationType\<close> and \<open>sourceId\<close>, which are \<open>toHex\<close> of the
  given base strings, and the given request body.
\<close>

theorem prepareAttestationRequestBase_status:
  "snd (prepareAttestationRequestBase url apiKey attestationTypeBase sourceIdBase body fetched)
     = [Fetch url [(''X-API-KEY'', apiKey), (''Content-Type'', ''application/json'')]
          (JObj [(''attestationType'', JStr (toHex attestationTypeBase)),
                 (''sourceId'', JStr (toHex sourceIdBase)),
                 (''requestBody'', body)])]
   \<and> (status_http response = 200 \<longrightarrow>
        fst (prepareAttestationRequestBase url apiKey attestationTypeBase sourceIdBase body (Inr response))
          = json response)
   \<and> (status_http response \<noteq> 200 \<longrightarrow>
        (\<exists>rest. fst (prepareAttestationRequestBase url apiKey attestationTypeBase sourceIdBase body
                        (Inr response))
                 = Inl (Error (''Response status is not OK'' @ rest))))
   \<and> (fst (prepareAttestationRequestBase url apiKey attestationTypeBase sourceIdBase body fetched) = Inr v
        \<longleftrightarrow> (\<exists>r. fetched = Inr r \<and> status_http r = 200 \<and> json r = Inr v))"
  by (auto simp: prepareAttestationRequestBase_def verifier_request_def not_OK_def Let_def
           split: sum.splits)

lemma string_of_nat_201: "string_of_nat 201 = ''201''"
  by (simp add: string_of_nat_def toString_radix.simps [of 10 201] toString_radix.simps [of 10 20]
        toString_radix.simps [of 10 2] digit_char_def)

theorem prepareAttestationRequestBase_status_witness:
  "status_http verifier_created \<noteq> 200 \<and> status_http verifier_ok = 200
   \<and> fst (preparePaymentAttestationRequest ''4545'' None None (Inr verifier_created))
       = Inl (Error (''Response status is not OK, status 201 Created'' @ [CHR 0x0A]))
   \<and> fst (preparePaymentAttestationRequest ''4545'' None None (Inr verifier_ok))
       = Inr (JObj [(''status'', JStr ''VALID''), (''abiEncodedRequest'', JStr ''0xab'')])"
proof -
  have h1: "status_http verifier_created \<noteq> 200" by (simp add: verifier_created_def)
  have h2: "status_http verifier_ok = 200" by (simp add: verifier_ok_def)
  note t = prepareAttestationRequestBase_status
    [where url = "VERIFIER_URL_TESTNET @ ''verifier/'' @ URL_TYPE_BASE @ ''/Payment/prepareRequest''"
       and apiKey = VERIFIER_API_KEY_TESTNET and attestationTypeBase = "''Payment''"
       and sourceIdBase = SOURCE_ID_BASE
       and body = "JObj [(''transactionId'', JStr ''4545''), (''inUtxo'', JStr ''0''), (''utxo'', JStr ''0'')]"]
  from t [where response = verifier_ok, THEN conjunct2, THEN conjunct1, THEN mp, OF h2]
  have a: "fst (preparePaymentAttestationRequest ''4545'' None None (Inr verifier_ok))
       = Inr (JObj [(''status'', JStr ''VALID''), (''abiEncodedRequest'', JStr ''0xab'')])"
    by (simp add: preparePaymentAttestationRequest_def verifier_ok_def)
  from t [where response = verifier_created, THEN conjunct2, THEN conjunct2, THEN conjunct1, THEN mp, OF h1]
  obtain rest where "fst (preparePaymentAttestationRequest ''4545'' None None (Inr verifier_created))
       = Inl (Error (''Response status is not OK'' @ rest))"
    by (auto simp add: preparePaymentAttestationRequest_def)
  moreover have "fst (preparePaymentAttestationRequest ''4545'' None None (Inr verifier_created))
       = Inl (Error (''Response status is not OK, status 201 Created'' @ [CHR 0x0A]))"
    by (simp add: preparePaymentAttestationRequest_def prepareAttestationRequestBase_def Let_def
          verifier_created_def not_OK_def string_of_nat_201)
  ultimately show ?thesis using a h1 h2 by simp
qed

section \<open>The fee of the attestation request\<close>

lemma decimal_examples:
  "decimal 0 ''0'' = Some 0" "decimal 0 ''10'' = Some 10" "decimal 0 ''12'' = Some 12"
  "decimal 0 ''77'' = Some 77" "decimal 0 ''1000'' = Some 1000"
  "decimal 0 ''1658519000'' = Some 1658519000" "decimal 0 ''1658519100'' = Some 1658519100"
  by simp_all

lemma payment_argument_converted: 
  "verifyPayment_argument decimal_BigInt (property payment_proof ''response'') (property payment_proof ''proof'')
    = Inr payment_argument"
  by (simp add: verifyPayment_argument_def payment_proof_def payment_argument_def property_def
         literal_def and_then_def big_def path2_def decimal_examples del: decimal.simps)

text \<open>
  C2 as stated fails: when the read of \<open>getRequestFee\<close> throws,
  \<open>submitAttestationRequestWithWagmi\<close> still submits the transaction, with a value that no
  read has returned.
\<close>

theorem fee_fallback_counterexample:
  "\<not> fee_read_from_contract unreachable []
       (snd (submitAttestationRequestWithWagmi (happy\<lparr>rpc_read := unreachable\<rparr>) (JStr ''0xab'') (Some loaded)))"
  by (simp add: submitAttestationRequestWithWagmi_def requestFee_def clientToUse_def happy_def
        loaded_def unreachable_def fallback_fee_def)

text \<open>
  C2, amended. The program computes no fee from the request. \<open>submitAttestationRequest\<close>
  attaches the value read with \<open>getRequestFee\<close> and submits nothing when the read fails.
  \<open>submitAttestationRequestWithWagmi\<close> attaches the value read with \<open>getRequestFee\<close> when the
  read succeeds; when the read throws or no public client is available, it submits the
  transaction with the fixed value 1000000000000000000; it submits nothing when the request
  is empty or the address of the hub is missing.
\<close>

theorem fee_read_or_fallback:
  "fee_read_from_contract rc [] (snd (submitAttestationRequest rc abi fdcAddresses))
   \<and> (fst (submitAttestationRequest rc abi fdcAddresses) = Inr () \<longrightarrow>
        (\<exists>a fee. fdcAddresses = Some a
           \<and> rc SharedClient (fdcRequestFeeConfigurations a) ''getRequestFee'' [JStr abi] = Inr fee
           \<and> filter is_transaction (snd (submitAttestationRequest rc abi fdcAddresses))
               = [RequestAttestation (fdcHub a) [JStr abi] fee]))
   \<and> (fst (submitAttestationRequest rc abi fdcAddresses) \<noteq> Inr () \<longrightarrow>
        filter is_transaction (snd (submitAttestationRequest rc abi fdcAddresses)) = [])
   \<and> (truthy request \<and> fdcHub a \<noteq> [] \<and> clientToUse env = Some c
       \<and> rpc_read env c (fdcRequestFeeConfigurations a) ''getRequestFee'' [request] = Inr fee \<longrightarrow>
        fee_read_from_contract (rpc_read env) []
          (snd (submitAttestationRequestWithWagmi env request (Some a)))
        \<and> filter is_transaction (snd (submitAttestationRequestWithWagmi env request (Some a)))
            = [RequestAttestation (fdcHub a) [request] fee])
   \<and> (truthy request \<and> fdcHub a \<noteq> []
       \<and> (clientToUse env = None
           \<or> (\<exists>c e. clientToUse env = Some c
                 \<and> rpc_read env c (fdcRequestFeeConfigurations a) ''getRequestFee'' [request] = Inl e)) \<longrightarrow>
        filter is_transaction (snd (submitAttestationRequestWithWagmi env request (Some a)))
          = [RequestAttestation (fdcHub a) [request] (JBig 1000000000000000000)])
   \<and> (\<not> truthy request \<or> fdcAddresses = None \<or> (\<exists>b. fdcAddresses = Some b \<and> fdcHub b = []) \<longrightarrow>
        snd (submitAttestationRequestWithWagmi env request fdcAddresses) = [])"
  by (auto simp: submitAttestationRequest_def getFdcRequestFee_def
        submitAttestationRequestWithWagmi_def requestFee_def fallback_fee_def
        split: option.splits sum.splits if_splits)

theorem fee_read_or_fallback_witness:
  "filter is_transaction (snd (submitAttestationRequestWithWagmi happy (JStr ''0xab'') (Some loaded)))
     = [RequestAttestation ''0xHub'' [JStr ''0xab''] (JBig 1000)]
   \<and> filter is_transaction
        (snd (submitAttestationRequestWithWagmi (happy\<lparr>rpc_read := unreachable\<rparr>) (JStr ''0xab'') (Some loaded)))
     = [RequestAttestation ''0xHub'' [JStr ''0xab''] (JBig 1000000000000000000)]
   \<and> snd (submitAttestationRequestWithWagmi happy (JStr []) (Some loaded)) = []
   \<and> filter is_transaction (snd (submitAttestationRequest chain ''0xab'' (Some loaded)))
     = [RequestAttestation ''0xHub'' [JStr ''0xab''] (JBig 1000)]
   \<and> filter is_transaction (snd (submitAttestationRequest unreachable ''0xab'' (Some loaded))) = []"
proof -
  have h1: "truthy (JStr ''0xab'') \<and> fdcHub loaded \<noteq> [] \<and> clientToUse happy = Some WagmiClient
       \<and> rpc_read happy WagmiClient (fdcRequestFeeConfigurations loaded) ''getRequestFee'' [JStr ''0xab'']
           = Inr (JBig 1000)"
    by (simp add: loaded_def clientToUse_def happy_def chain_def)
  have h2: "truthy (JStr ''0xab'') \<and> fdcHub loaded \<noteq> []
       \<and> (clientToUse (happy\<lparr>rpc_read := unreachable\<rparr>) = None
           \<or> (\<exists>c e. clientToUse (happy\<lparr>rpc_read := unreachable\<rparr>) = Some c
                 \<and> rpc_read (happy\<lparr>rpc_read := unreachable\<rparr>) c (fdcRequestFeeConfigurations loaded)
                      ''getRequestFee'' [JStr ''0xab''] = Inl e))"
    by (simp add: loaded_def clientToUse_def happy_def unreachable_def)
  have h3: "\<not> truthy (JStr []) \<or> Some loaded = None \<or> (\<exists>b. Some loaded = Some b \<and> fdcHub b = [])"
    by simp
  have h4: "fst (submitAttestationRequest chain ''0xab'' (Some loaded)) = Inr ()"
    by (simp add: submitAttestationRequest_def getFdcRequestFee_def loaded_def chain_def)
  have h5: "fst (submitAttestationRequest unreachable ''0xab'' (Some loaded)) \<noteq> Inr ()"
    by (simp add: submitAttestationRequest_def getFdcRequestFee_def loaded_def unreachable_def)
  note t = fee_read_or_fallback [where request = "JStr ''0xab''" and a = loaded and rc = chain
      and abi = "''0xab''" and fdcAddresses = "Some loaded"]
  note t1 = t [where env = happy and c = WagmiClient and fee = "JBig 1000",
      THEN conjunct2, THEN conjunct2, THEN conjunct2, THEN conjunct1, THEN mp, OF h1]
  note t2 = t [where env = "happy\<lparr>rpc_read := unreachable\<rparr>" and c = WagmiClient and fee = "JBig 1000",
      THEN conjunct2, THEN conjunct2, THEN conjunct2, THEN conjunct2, THEN conjunct1, THEN mp, OF h2]
  note t3 = fee_read_or_fallback [where request = "JStr []" and fdcAddresses = "Some loaded"
      and env = happy and rc = chain and abi = "''0xab''" and a = loaded and c = WagmiClient
      and fee = "JBig 1000",
      THEN conjunct2, THEN conjunct2, THEN conjunct2, THEN conjunct2, THEN conjunct2, THEN mp, OF h3]
  note t4 = t [where env = happy and c = WagmiClient and fee = "JBig 1000",
      THEN conjunct2, THEN conjunct1, THEN mp, OF h4]
  note t5 = fee_read_or_fallback [where rc = unreachable and abi = "''0xab''"
      and fdcAddresses = "Some loaded" and request = "JStr ''0xab''" and a = loaded and env = happy
      and c = WagmiClient and fee = "JBig 1000",
      THEN conjunct2, THEN conjunct2, THEN conjunct1, THEN mp, OF h5]
  from t4 have t4': "filter is_transaction (snd (submitAttestationRequest chain ''0xab'' (Some loaded)))
     = [RequestAttestation ''0xHub'' [JStr ''0xab''] (JBig 1000)]"
    by (auto simp: loaded_def chain_def)
  from t1 t2 t3 t4' t5 show ?thesis by (simp add: loaded_def)
qed

section \<open>\<open>verifyPayment\<close>\<close>

lemma run_effects_operations:
  "list_all is_operation effects \<Longrightarrow> run_effects effects s = s"
  unfolding run_effects_def
proof (induction effects arbitrary: s)
  case Nil
  then show ?case by simp
next
  case (Cons x xs)
  then show ?case by (cases x) simp_all
qed

lemma verifyPayment_effects:
  "snd (verifyPayment BigInt rc proofdata fdcAddresses) = []
   \<or> (\<exists>a argument. fdcAddresses = Some a
        \<and> snd (verifyPayment BigInt rc proofdata fdcAddresses)
            = [ReadContract SharedClient (fdcVerification a) ''verifyPayment'' [argument]])"
  by (auto simp: verifyPayment_def split: option.splits sum.splits bool.splits)

text \<open>
  C6. The verification is read-only. Whatever its input, \<open>verifyPayment\<close> performs at most one
  effect, the read of \<open>verifyPayment\<close> on the FdcVerification contract through the public
  client; it submits no transaction and leaves the state of the component as it is. A
  value it returns is the result of that read, and for complete proof data whose fields
  convert, with the address of the contract loaded, it performs the read and returns its
  outcome.
\<close>

theorem verifyPayment_read_only:
  "list_all is_read (snd (verifyPayment BigInt rc proofdata fdcAddresses))
   \<and> length (snd (verifyPayment BigInt rc proofdata fdcAddresses)) \<le> 1
   \<and> list_all (\<lambda>e. \<not> is_transaction e) (snd (verifyPayment BigInt rc proofdata fdcAddresses))
   \<and> run_effects (snd (verifyPayment BigInt rc proofdata fdcAddresses)) s = s
   \<and> (fst (verifyPayment BigInt rc proofdata fdcAddresses) = Inr r \<longrightarrow>
        (\<exists>a argument. fdcAddresses = Some a
           \<and> snd (verifyPayment BigInt rc proofdata fdcAddresses)
               = [ReadContract SharedClient (fdcVerification a) ''verifyPayment'' [argument]]
           \<and> rc SharedClient (fdcVerification a) ''verifyPayment'' [argument] = Inr r))
   \<and> (fdcVerification a \<noteq> [] \<and> incomplete proofdata = Inr False
       \<and> verifyPayment_argument BigInt (property proofdata ''response'') (property proofdata ''proof'')
           = Inr argument \<longrightarrow>
        verifyPayment BigInt rc proofdata (Some a)
          = (rc SharedClient (fdcVerification a) ''verifyPayment'' [argument],
             [ReadContract SharedClient (fdcVerification a) ''verifyPayment'' [argument]]))"
proof (intro conjI impI)
  let ?effects = "snd (verifyPayment BigInt rc proofdata fdcAddresses)"
  from verifyPayment_effects [of BigInt rc proofdata fdcAddresses]
  show r: "list_all is_read ?effects" and "length ?effects \<le> 1"
    and "list_all (\<lambda>e. \<not> is_transaction e) ?effects"
    by auto
  from verifyPayment_effects [of BigInt rc proofdata fdcAddresses]
  have "list_all is_operation ?effects" by auto
  then show "run_effects ?effects s = s" by (rule run_effects_operations)
next
  assume "fst (verifyPayment BigInt rc proofdata fdcAddresses) = Inr r"
  then show "\<exists>a argument. fdcAddresses = Some a
           \<and> snd (verifyPayment BigInt rc proofdata fdcAddresses)
               = [ReadContract SharedClient (fdcVerification a) ''verifyPayment'' [argument]]
           \<and> rc SharedClient (fdcVerification a) ''verifyPayment'' [argument] = Inr r"
    by (auto simp: verifyPayment_def split: option.splits sum.splits bool.splits if_splits)
next
  assume "fdcVerification a \<noteq> [] \<and> incomplete proofdata = Inr False
       \<and> verifyPayment_argument BigInt (property proofdata ''response'') (property proofdata ''proof'')
           = Inr argument"
  then show "verifyPayment BigInt rc proofdata (Some a)
          = (rc SharedClient (fdcVerification a) ''verifyPayment'' [argument],
             [ReadContract SharedClient (fdcVerification a) ''verifyPayment'' [argument]])"
    by (auto simp: verifyPayment_def incomplete_def and_then_def property_def
             split: option.splits sum.splits bool.splits if_splits)
qed

theorem verifyPayment_read_only_witness:
  "verifyPayment decimal_BigInt chain payment_proof (Some loaded)
     = (Inr (JBool True), [ReadContract SharedClient ''0xVerification'' ''verifyPayment'' [payment_argument]])
   \<and> run_effects (snd (verifyPayment decimal_BigInt chain payment_proof (Some loaded))) initial_state
       = initial_state
   \<and> (\<exists>a argument. Some loaded = Some a
         \<and> snd (verifyPayment decimal_BigInt chain payment_proof (Some loaded))
             = [ReadContract SharedClient (fdcVerification a) ''verifyPayment'' [argument]]
         \<and> chain SharedClient (fdcVerification a) ''verifyPayment'' [argument] = Inr (JBool True))"
proof -
  have h: "fdcVerification loaded \<noteq> [] \<and> incomplete payment_proof = Inr False
       \<and> verifyPayment_argument decimal_BigInt (property payment_proof ''response'')
            (property payment_proof ''proof'') = Inr payment_argument"
    by (simp add: payment_argument_converted) (simp add: loaded_def incomplete_def payment_proof_def and_then_def)
  note t = verifyPayment_read_only [where BigInt = decimal_BigInt and rc = chain
      and proofdata = payment_proof and fdcAddresses = "Some loaded" and a = loaded
      and argument = payment_argument and s = initial_state and r = "JBool True"]
  note t1 = t [THEN conjunct2, THEN conjunct2, THEN conjunct2, THEN conjunct2, THEN conjunct2, THEN mp, OF h]
  note t2 = t [THEN conjunct2, THEN conjunct2, THEN conjunct2, THEN conjunct1]
  from t1 have r: "fst (verifyPayment decimal_BigInt chain payment_proof (Some loaded)) = Inr (JBool True)"
    by (simp add: loaded_def chain_def)
  note t3 = t [THEN conjunct2, THEN conjunct2, THEN conjunct2, THEN conjunct2, THEN conjunct1, THEN mp, OF r]
  from t1 t2 t3 show ?thesis by (simp add: loaded_def chain_def)
qed

section \<open>The guards of \<open>executeFdcWorkflow\<close>\<close>

lemma guard_blocks:
  "addresses env = None \<or> (addressError env \<noteq> None \<and> addressError env \<noteq> Some []) \<or> \<not> isConnected env
     \<Longrightarrow> \<exists>m. guard env = Some m"
  by (auto simp: guard_def split: option.splits list.splits)

text \<open>
  C8. When the contract addresses are not loaded, or their loading has failed, or the
  wallet is not connected, \<open>executeFdcWorkflow\<close> sets an error message and returns: the whole
  run consists of that one update, no verifier call is made, no transaction is submitted,
  and the steps are as they were, the pending ones still pending.
\<close>

theorem executeFdcWorkflow_guard:
  "addresses env = None \<or> (addressError env \<noteq> None \<and> addressError env \<noteq> Some []) \<or> \<not> isConnected env
   \<longrightarrow> (\<exists>m. executeFdcWorkflow env d = [SetError (Some m)])
       \<and> workflow env d = executeFdcWorkflow env d
       \<and> list_all (\<lambda>e. \<not> is_operation e) (workflow env d)
       \<and> steps (run_effects (workflow env d) s) = steps s
       \<and> error_message (run_effects (workflow env d) s) \<noteq> None"
proof
  assume "addresses env = None \<or> (addressError env \<noteq> None \<and> addressError env \<noteq> Some []) \<or> \<not> isConnected env"
  then obtain m where "guard env = Some m" using guard_blocks by blast
  then show "(\<exists>m. executeFdcWorkflow env d = [SetError (Some m)])
       \<and> workflow env d = executeFdcWorkflow env d
       \<and> list_all (\<lambda>e. \<not> is_operation e) (workflow env d)
       \<and> steps (run_effects (workflow env d) s) = steps s
       \<and> error_message (run_effects (workflow env d) s) \<noteq> None"
    by (simp add: workflow_def executeFdcWorkflow_def transaction_hooks_def run_effects_def)
qed

theorem executeFdcWorkflow_guard_witness:
  "workflow (happy\<lparr>isConnected := False\<rparr>) \<lparr>transactionId = ''4545''\<rparr>
       = [SetError (Some ''Please connect your wallet to submit attestation requests to the blockchain.'')]
   \<and> map status_step (steps (run_effects (workflow (happy\<lparr>isConnected := False\<rparr>) \<lparr>transactionId = ''4545''\<rparr>)
        initial_state)) = [pending, pending, pending, pending, pending]
   \<and> workflow (happy\<lparr>addresses := None\<rparr>) \<lparr>transactionId = ''4545''\<rparr>
       = [SetError (Some ''FDC contract addresses not loaded. Please wait and try again.'')]
   \<and> workflow (happy\<lparr>addressError := Some ''Failed to fetch FDC contract addresses''\<rparr>)
         \<lparr>transactionId = ''4545''\<rparr>
       = [SetError (Some ''Error loading contract addresses: Failed to fetch FDC contract addresses'')]"
proof -
  let ?d = "\<lparr>transactionId = ''4545''\<rparr>"
  let ?e1 = "happy\<lparr>isConnected := False\<rparr>"
  let ?e2 = "happy\<lparr>addresses := None\<rparr>"
  let ?e3 = "happy\<lparr>addressError := Some ''Failed to fetch FDC contract addresses''\<rparr>"
  have h1: "addresses ?e1 = None \<or> (addressError ?e1 \<noteq> None \<and> addressError ?e1 \<noteq> Some [])
     \<or> \<not> isConnected ?e1"
    by simp
  have h2: "addresses ?e2 = None \<or> (addressError ?e2 \<noteq> None \<and> addressError ?e2 \<noteq> Some [])
     \<or> \<not> isConnected ?e2"
    by simp
  have h3: "addresses ?e3 = None \<or> (addressError ?e3 \<noteq> None \<and> addressError ?e3 \<noteq> Some [])
     \<or> \<not> isConnected ?e3"
    by simp
  from executeFdcWorkflow_guard [of ?e1 ?d initial_state, THEN mp, OF h1]
  have a: "steps (run_effects (workflow ?e1 ?d) initial_state) = steps initial_state"
    and b: "workflow ?e1 ?d = executeFdcWorkflow ?e1 ?d"
    by blast+
  from executeFdcWorkflow_guard [of ?e2 ?d initial_state, THEN mp, OF h2]
  have c: "workflow ?e2 ?d = executeFdcWorkflow ?e2 ?d" by blast
  from executeFdcWorkflow_guard [of ?e3 ?d initial_state, THEN mp, OF h3]
  have d: "workflow ?e3 ?d = executeFdcWorkflow ?e3 ?d" by blast
  from a b c d show ?thesis
    by (simp add: executeFdcWorkflow_def guard_def happy_def initial_state_def pending_steps_def)
qed

section \<open>The order of the workflow\<close>

lemma follow_None: "follow None xs = None"
  by (cases xs) simp_all

lemma follow_append: "follow p (xs @ ys) = follow (follow p xs) ys"
proof (induction xs arbitrary: p)
  case Nil
  then show ?case by simp
next
  case (Cons x xs)
  then show ?case by (cases p) (simp_all add: follow_None)
qed

lemma advance_operation:
  "operation_of_step stepId x \<Longrightarrow>
     advance (finished, Some stepId, performed) x = Some (finished, Some stepId, performed @ [x])"
  by (cases x) simp_all

lemma follow_operations:
  "list_all (operation_of_step stepId) xs \<Longrightarrow>
     follow (Some (finished, Some stepId, performed)) xs = Some (finished, Some stepId, performed @ xs)"
  by (induction xs arbitrary: performed) (simp_all add: advance_operation)

lemma follow_catch:
  "follow p xs \<noteq> None \<Longrightarrow> follow p (xs @ [SetCurrentAttestationStep m, SetError e]) \<noteq> None"
proof -
  assume "follow p xs \<noteq> None"
  then obtain finished current performed where "follow p xs = Some (finished, current, performed)"
    by (cases "follow p xs") auto
  then show ?thesis by (simp add: follow_append)
qed

lemma verification_is_operation: "is_verification x \<Longrightarrow> is_operation x"
  by (cases x) simp_all

lemma verification_last_Cons:
  "verification_last (x # xs)
     = (if is_verification x then list_all (\<lambda>y. \<not> is_operation y) xs else verification_last xs)"
  by (simp add: verification_last_def)

lemma verification_last_append:
  "list_all (\<lambda>x. \<not> is_verification x) xs \<Longrightarrow> verification_last (xs @ ys) = verification_last ys"
  by (induction xs) (simp_all add: verification_last_Cons)

lemma verification_last_quiet:
  "list_all (\<lambda>x. \<not> is_operation x) xs \<Longrightarrow> verification_last xs"
proof (induction xs)
  case Nil
  then show ?case by (simp add: verification_last_def)
next
  case (Cons x xs)
  then show ?case using verification_is_operation [of x] by (auto simp: verification_last_Cons)
qed

text \<open>The effects of a sequence.\<close>

lemma snd_seq:
  "snd (seq m f) = snd m @ (case fst m of Some (Inr v) \<Rightarrow> snd (f v) | _ \<Rightarrow> [])"
  by (cases m) (auto simp: seq_def split: option.splits sum.splits prod.splits)

lemma fst_seq:
  "fst (seq m f) = (case fst m of Some (Inr v) \<Rightarrow> fst (f v) | Some (Inl e) \<Rightarrow> Some (Inl e) | None \<Rightarrow> None)"
  by (cases m) (auto simp: seq_def split: option.splits sum.splits prod.splits)

lemmas run_simps = snd_seq fst_seq emit_def throw_def pure_def settled_def

text \<open>
  The calls into \<open>fdcUtils\<close> and the wallet perform operations only, and no verification
  before step 5.
\<close>

lemma submit_operations:
  "list_all is_operation (snd (submitAttestationRequestWithWagmi env request fdcAddresses))"
  "list_all (\<lambda>x. \<not> is_verification x) (snd (submitAttestationRequestWithWagmi env request fdcAddresses))"
  by (auto simp: submitAttestationRequestWithWagmi_def requestFee_def
           split: option.splits sum.splits if_splits)

lemma calculateRoundId_operations:
  "list_all is_operation (snd (calculateRoundId BigInt getBlock rc transaction fdcAddresses))"
  "list_all (\<lambda>x. \<not> is_verification x) (snd (calculateRoundId BigInt getBlock rc transaction fdcAddresses))"
  by (auto simp: calculateRoundId_def Let_def split: option.splits sum.splits if_splits)

lemma poll_operations:
  "poll (Fetch u h b) replies = (r, effects) \<Longrightarrow>
     list_all is_operation effects \<and> list_all (\<lambda>x. \<not> is_verification x) effects"
  by (induction replies arbitrary: r effects) (auto split: sum.splits bool.splits prod.splits)

lemma retrieveDataAndProof_operations:
  "list_all is_operation (snd (retrieveDataAndProof url request roundId apiKey replies))
   \<and> list_all (\<lambda>x. \<not> is_verification x) (snd (retrieveDataAndProof url request roundId apiKey replies))"
  by (auto simp: retrieveDataAndProof_def Let_def da_request_def
           split: list.splits sum.splits bool.splits prod.splits dest!: poll_operations)

lemma retry_from_all:
  "(\<And>j. list_all P (snd (retrieve j))) \<Longrightarrow> P (Sleep 20000) \<Longrightarrow>
     list_all P (snd (retry_from retrieve attempts i))"
proof (induction retrieve attempts i rule: retry_from.induct)
  case (1 retrieve attempts i)
  show ?case
  proof (cases "int i < attempts")
    case False
    then show ?thesis by (simp add: retry_from.simps [of retrieve attempts i])
  next
    case True
    have here: "list_all P (snd (retrieve i))" by (rule 1(2))
    show ?thesis
    proof (cases "retrieve i")
      case (Pair r effects)
      show ?thesis
      proof (cases r)
        case None
        with Pair True here show ?thesis by (simp add: retry_from.simps [of retrieve attempts i])
      next
        case (Some x)
        show ?thesis
        proof (cases x)
          case (Inr v)
          with Pair Some True here show ?thesis by (simp add: retry_from.simps [of retrieve attempts i])
        next
          case (Inl e)
          with Pair Some have r: "retrieve i = (Some (Inl e), effects)" by simp
          have "list_all P (snd (retry_from retrieve attempts (Suc i)))"
            using 1(1) [OF True r [symmetric] refl refl] 1(2,3) by simp
          with r True here 1(3) show ?thesis
            by (auto simp add: retry_from.simps [of retrieve attempts i] split: prod.splits)
        qed
      qed
    qed
  qed
qed

lemma retrieve_operations:
  "list_all is_operation
     (snd (retrievePaymentDataAndProofWithRetry url request roundId apiKey attempts replies))"
  "list_all (\<lambda>x. \<not> is_verification x)
     (snd (retrievePaymentDataAndProofWithRetry url request roundId apiKey attempts replies))"
  unfolding retrievePaymentDataAndProofWithRetry_def retrieveDataAndProofWithRetry_def
  by (rule retry_from_all; simp add: attempt_def retrieveDataAndProof_operations)+

lemma verification_last_verifyPayment:
  "list_all (\<lambda>x. \<not> is_operation x) rest \<Longrightarrow>
     verification_last (snd (verifyPayment BigInt rc proofdata fdcAddresses) @ rest)"
  using verifyPayment_effects [of BigInt rc proofdata fdcAddresses]
  by (auto simp: verification_last_Cons verification_last_quiet)

text \<open>Each of these calls makes the operations of its step, and a call that returns has made them.\<close>

lemma submit_of_step:
  "list_all (operation_of_step ''submit-request'')
     (snd (submitAttestationRequestWithWagmi env request fdcAddresses))"
  by (auto simp: submitAttestationRequestWithWagmi_def requestFee_def
           split: option.splits sum.splits if_splits)

lemma submit_transaction:
  "fst (submitAttestationRequestWithWagmi env request fdcAddresses) = Inr hash \<Longrightarrow>
     list_ex is_transaction (snd (submitAttestationRequestWithWagmi env request fdcAddresses))"
  by (auto simp: submitAttestationRequestWithWagmi_def requestFee_def
           split: option.splits sum.splits if_splits prod.splits)

lemma calculateRoundId_of_step:
  "list_all (operation_of_step ''wait-finalization'')
     (snd (calculateRoundId BigInt getBlock rc transaction fdcAddresses))"
  by (auto simp: calculateRoundId_def Let_def split: option.splits sum.splits if_splits)

lemma calculateRoundId_block:
  "fst (calculateRoundId BigInt getBlock rc transaction fdcAddresses) = Inr roundId \<Longrightarrow>
     list_ex is_block_read (snd (calculateRoundId BigInt getBlock rc transaction fdcAddresses))"
  by (auto simp: calculateRoundId_def Let_def split: option.splits sum.splits if_splits)

lemma poll_of_step:
  "poll (Fetch DA_LAYER_API_URL h b) replies = (r, effects) \<Longrightarrow>
     list_all (operation_of_step ''prepare-proof'') effects"
  by (induction replies arbitrary: r effects) (auto split: sum.splits bool.splits prod.splits)

lemma retrieveDataAndProof_of_step:
  "list_all (operation_of_step ''prepare-proof'')
     (snd (retrieveDataAndProof DA_LAYER_API_URL request roundId apiKey replies))"
  by (auto simp: retrieveDataAndProof_def Let_def da_request_def
           split: list.splits sum.splits bool.splits prod.splits dest!: poll_of_step)

lemma retrieveDataAndProof_request:
  "list_ex is_request (snd (retrieveDataAndProof url request roundId apiKey replies))"
  by (auto simp: retrieveDataAndProof_def Let_def da_request_def
           split: list.splits sum.splits bool.splits prod.splits)

lemma retry_from_request:
  assumes "\<And>j. list_ex P (snd (retrieve j))" "fst (retry_from retrieve attempts i) = Some (Inr v)"
  shows "list_ex P (snd (retry_from retrieve attempts i))"
proof (cases "int i < attempts")
  case False
  with assms(2) show ?thesis by (simp add: retry_from.simps [of retrieve attempts i])
next
  case True
  with assms(1) [of i] show ?thesis
    by (auto simp add: retry_from.simps [of retrieve attempts i] split: prod.splits option.splits sum.splits)
qed

lemma retrieve_of_step:
  "list_all (operation_of_step ''prepare-proof'')
     (snd (retrievePaymentDataAndProofWithRetry DA_LAYER_API_URL request roundId apiKey attempts replies))"
  unfolding retrievePaymentDataAndProofWithRetry_def retrieveDataAndProofWithRetry_def
  by (rule retry_from_all; simp add: attempt_def retrieveDataAndProof_of_step)

lemma retrieve_request:
  "fst (retrievePaymentDataAndProofWithRetry url request roundId apiKey attempts replies) = Some (Inr v) \<Longrightarrow>
     list_ex is_request
       (snd (retrievePaymentDataAndProofWithRetry url request roundId apiKey attempts replies))"
  unfolding retrievePaymentDataAndProofWithRetry_def retrieveDataAndProofWithRetry_def
  by (rule retry_from_request; simp add: attempt_def retrieveDataAndProof_request)

lemma verifyPayment_of_step:
  "list_all (operation_of_step ''verify-data'') (snd (verifyPayment BigInt rc proofdata fdcAddresses))"
  using verifyPayment_effects [of BigInt rc proofdata fdcAddresses] by auto

lemma verifyPayment_call:
  "fst (verifyPayment BigInt rc proofdata fdcAddresses) = Inr v \<Longrightarrow>
     list_ex is_verification (snd (verifyPayment BigInt rc proofdata fdcAddresses))"
  by (auto simp: verifyPayment_def split: option.splits sum.splits bool.splits if_splits)

text \<open>The steps 3 to 5, from the last one back.\<close>

lemmas follow_simps =
  run_simps follow_append follow_operations step_done_def earlier_steps_def step_order_def
  submit_of_step calculateRoundId_of_step retrieve_of_step verifyPayment_of_step
  calculateRoundId_block retrieve_request verifyPayment_call

lemma verify_data_follow:
  "follow (Some (finished, Some ''verify-data'', [])) (snd (verify_data env proof)) \<noteq> None"
  by (simp add: verify_data_def follow_simps del: not_None_eq split: option.splits sum.splits)

lemma prepare_proof_follow:
  "''prepare-request'' \<in> set finished \<Longrightarrow> ''submit-request'' \<in> set finished \<Longrightarrow>
   ''wait-finalization'' \<in> set finished \<Longrightarrow>
     follow (Some (finished, None, [])) (snd (prepare_proof env attestationData roundId)) \<noteq> None"
  by (simp add: prepare_proof_def follow_simps verify_data_follow del: not_None_eq
        split: option.splits sum.splits)

lemma continue_try_follow:
  "''prepare-request'' \<in> set finished \<Longrightarrow> ''submit-request'' \<in> set finished \<Longrightarrow>
     follow (Some (finished, None, [])) (snd (continue_try env attestationData transactionReceipt)) \<noteq> None"
  by (simp add: continue_try_def follow_simps prepare_proof_follow del: not_None_eq
        split: option.splits sum.splits)

lemma continueWorkflowAfterSubmission_follow:
  "''prepare-request'' \<in> set finished \<Longrightarrow> ''submit-request'' \<in> set finished \<Longrightarrow>
     follow (Some (finished, None, []))
       (continueWorkflowAfterSubmission env attestationData transactionReceipt) \<noteq> None"
proof -
  assume "''prepare-request'' \<in> set finished" "''submit-request'' \<in> set finished"
  then have t: "follow (Some (finished, None, []))
                  (snd (continue_try env attestationData transactionReceipt)) \<noteq> None"
    by (rule continue_try_follow)
  obtain r effects where eq: "continue_try env attestationData transactionReceipt = (r, effects)"
    by (cases "continue_try env attestationData transactionReceipt")
  with t have "follow (Some (finished, None, [])) effects \<noteq> None" by simp
  with eq follow_catch [of "Some (finished, None, [])" effects] show ?thesis
    by (simp add: continueWorkflowAfterSubmission_def del: not_None_eq split: option.splits sum.splits)
qed

lemma onAttestationSuccess_follow:
  "list_ex is_transaction performed \<Longrightarrow>
     follow (Some ([''prepare-request''], Some ''submit-request'', performed))
       (onAttestationSuccess env attestationData attestationHash transactionReceipt) \<noteq> None"
  by (simp add: onAttestationSuccess_def step_done_def continueWorkflowAfterSubmission_follow
        del: not_None_eq)

text \<open>The steps 1 and 2.\<close>

lemma prepareRequest_fst: "fst (prepareRequest env tid) = fst (prepareRequest_try env tid)"
  by (cases "prepareRequest_try env tid") (auto simp: prepareRequest_def split: option.splits sum.splits)

lemma prepareRequest_snd:
  "snd (prepareRequest env tid)
     = snd (prepareRequest_try env tid)
       @ (case fst (prepareRequest_try env tid) of
            Some (Inl e) \<Rightarrow> [UpdateStepStatus ''prepare-request'' error None
                               (Some (message_or ''Unknown error occurred'' e))]
          | _ \<Rightarrow> [])"
  by (cases "prepareRequest_try env tid") (auto simp: prepareRequest_def split: option.splits sum.splits)

text \<open>
  The effects of step 1: the update that starts it, requests to the verifier, and the
  update that completes it when the step returns.
\<close>

lemma prepareRequest_try_effects:
  "\<exists>requests finish.
      snd (prepareRequest_try env tid)
        = UpdateStepStatus ''prepare-request'' in_progress None None # requests @ finish
      \<and> list_all (operation_of_step ''prepare-request'') requests \<and> list_ex is_request requests
      \<and> list_all is_operation requests \<and> list_all (\<lambda>x. \<not> is_verification x) requests
      \<and> (case fst (prepareRequest_try env tid) of
            Some (Inr v) \<Rightarrow> (\<exists>dat. finish = [UpdateStepStatus ''prepare-request'' completed dat None])
          | _ \<Rightarrow> finish = [])"
proof (cases "verifier env prepareRequest_url")
  case (Inl e)
  then show ?thesis
    by (intro exI [of _ "[verifier_fetch prepareRequest_url tid]"] exI [of _ "[]"])
       (simp add: prepareRequest_try_def run_simps verifier_fetch_def)
next
  case first: (Inr first)
  show ?thesis
  proof (cases "ok first")
    case True
    with first show ?thesis
      by (intro exI [of _ "[verifier_fetch prepareRequest_url tid]"]
            exI [of _ "case fst (prepareRequest_try env tid) of
                         Some (Inr v) \<Rightarrow> [UpdateStepStatus ''prepare-request'' completed
                            (Some (set_property (entries v) ''requestDetails'' (requestDetails tid v first))) None]
                       | _ \<Rightarrow> []"])
         (simp add: prepareRequest_try_def run_simps verifier_fetch_def split: sum.splits)
  next
    case False
    show ?thesis
    proof (cases "verifier env prepareResponse_url")
      case (Inl e)
      with first False show ?thesis
        by (intro exI [of _ "[verifier_fetch prepareRequest_url tid, verifier_fetch prepareResponse_url tid]"]
              exI [of _ "[]"])
           (simp add: prepareRequest_try_def run_simps verifier_fetch_def)
    next
      case (Inr response)
      with first False show ?thesis
        by (intro exI [of _ "[verifier_fetch prepareRequest_url tid, verifier_fetch prepareResponse_url tid]"]
            exI [of _ "case fst (prepareRequest_try env tid) of
                         Some (Inr v) \<Rightarrow> [UpdateStepStatus ''prepare-request'' completed
                            (Some (set_property (entries v) ''requestDetails'' (requestDetails tid v response))) None]
                       | _ \<Rightarrow> []"])
           (simp add: prepareRequest_try_def run_simps verifier_fetch_def split: sum.splits)
    qed
  qed
qed

lemma executeFdcWorkflow_try_snd:
  "snd (executeFdcWorkflow_try env tid)
     = snd (prepareRequest_try env tid)
       @ (case fst (prepareRequest_try env tid) of
            Some (Inl e) \<Rightarrow> [UpdateStepStatus ''prepare-request'' error None
                               (Some (message_or ''Unknown error occurred'' e))]
          | Some (Inr attestationResponse) \<Rightarrow>
              (case get attestationResponse ''abiEncodedRequest'' of
                 Inl e \<Rightarrow> []
               | Inr request \<Rightarrow>
                   [SetCurrentAttestationData attestationResponse,
                    UpdateStepStatus ''submit-request'' in_progress None None]
                   @ snd (submitAttestationRequestWithWagmi env request (addresses env)))
          | None \<Rightarrow> [])"
  by (simp add: executeFdcWorkflow_try_def run_simps prepareRequest_fst prepareRequest_snd
        split: option.splits sum.splits)

lemma executeFdcWorkflow_try_fst:
  "fst (executeFdcWorkflow_try env tid)
     = (case fst (prepareRequest_try env tid) of
          None \<Rightarrow> None
        | Some (Inl e) \<Rightarrow> Some (Inl e)
        | Some (Inr attestationResponse) \<Rightarrow>
            (case get attestationResponse ''abiEncodedRequest'' of
               Inl e \<Rightarrow> Some (Inl e)
             | Inr request \<Rightarrow>
                 (case fst (submitAttestationRequestWithWagmi env request (addresses env)) of
                    Inl e \<Rightarrow> Some (Inl e)
                  | Inr hash \<Rightarrow> Some (Inr (attestationResponse, hash)))))"
  by (simp add: executeFdcWorkflow_try_def run_simps prepareRequest_fst
        split: option.splits sum.splits)

text \<open>
  The \<open>try\<close> block of \<open>executeFdcWorkflow\<close> keeps the order; when it returns, step 1 is complete,
  step 2 is in progress and the transaction has been sent.
\<close>

lemma executeFdcWorkflow_try_follow:
  "\<exists>finished current performed.
      follow (Some ([], None, [])) (snd (executeFdcWorkflow_try env tid))
        = Some (finished, current, performed)
      \<and> (fst (executeFdcWorkflow_try env tid) = Some (Inr v) \<longrightarrow>
           finished = [''prepare-request''] \<and> current = Some ''submit-request''
           \<and> list_ex is_transaction performed)"
proof -
  obtain requests finish where
    shape: "snd (prepareRequest_try env tid)
        = UpdateStepStatus ''prepare-request'' in_progress None None # requests @ finish"
    and requests: "list_all (operation_of_step ''prepare-request'') requests" "list_ex is_request requests"
    and finish: "case fst (prepareRequest_try env tid) of
            Some (Inr v) \<Rightarrow> (\<exists>dat. finish = [UpdateStepStatus ''prepare-request'' completed dat None])
          | _ \<Rightarrow> finish = []"
    using prepareRequest_try_effects [of env tid] by blast
  show ?thesis
  proof (cases "fst (prepareRequest_try env tid)")
    case None
    with finish have "finish = []" by simp
    with None shape requests show ?thesis
      by (simp add: executeFdcWorkflow_try_snd executeFdcWorkflow_try_fst follow_simps)
  next
    case (Some x)
    show ?thesis
    proof (cases x)
      case (Inl e)
      with Some finish have "finish = []" by simp
      with Some Inl shape requests show ?thesis
        by (simp add: executeFdcWorkflow_try_snd executeFdcWorkflow_try_fst follow_simps)
    next
      case (Inr attestationResponse)
      with Some finish obtain dat where
        "finish = [UpdateStepStatus ''prepare-request'' completed dat None]" by auto
      with Some Inr shape requests show ?thesis
        by (simp add: executeFdcWorkflow_try_snd executeFdcWorkflow_try_fst follow_simps
              submit_transaction split: sum.splits)
    qed
  qed
qed

lemma executeFdcWorkflow_try_no_verification:
  "list_all (\<lambda>x. \<not> is_verification x) (snd (executeFdcWorkflow_try env tid))"
proof -
  obtain requests finish where
    "snd (prepareRequest_try env tid)
        = UpdateStepStatus ''prepare-request'' in_progress None None # requests @ finish"
    "list_all (\<lambda>x. \<not> is_verification x) requests"
    "case fst (prepareRequest_try env tid) of
            Some (Inr v) \<Rightarrow> (\<exists>dat. finish = [UpdateStepStatus ''prepare-request'' completed dat None])
          | _ \<Rightarrow> finish = []"
    using prepareRequest_try_effects [of env tid] by blast
  then show ?thesis
    by (auto simp: executeFdcWorkflow_try_snd submit_operations split: option.splits sum.splits)
qed

lemma executeFdcWorkflow_snd:
  "executeFdcWorkflow env d
     = (case guard env of
          Some m \<Rightarrow> [SetError (Some m)]
        | None \<Rightarrow>
            [SetIsLoading True, SetError None, SetSuccess None, ResetSteps]
            @ snd (executeFdcWorkflow_try env (trim (transactionId d)))
            @ (case fst (executeFdcWorkflow_try env (trim (transactionId d))) of
                 Some (Inl e) \<Rightarrow> [SetError (Some (message_or ''An unexpected error occurred'' e)),
                                    SetIsLoading False]
               | _ \<Rightarrow> []))"
  by (cases "executeFdcWorkflow_try env (trim (transactionId d))")
     (auto simp: executeFdcWorkflow_def split: option.splits sum.splits)

text \<open>A whole run keeps the order of the workflow.\<close>

lemma workflow_executed_in_order: "executed_in_order (workflow env d)"
proof (cases "guard env")
  case (Some m)
  then show ?thesis by (simp add: executed_in_order_def workflow_def executeFdcWorkflow_def transaction_hooks_def)
next
  case None
  let ?block = "executeFdcWorkflow_try env (trim (transactionId d))"
  obtain r effects where eq: "?block = (r, effects)" by (cases ?block)
  have start: "follow (Some ([], None, [])) [SetIsLoading True, SetError None, SetSuccess None, ResetSteps]
                 = Some ([], None, [])"
    by simp
  show ?thesis
  proof (cases r)
    case none: None
    obtain finished current performed where
      "follow (Some ([], None, [])) (snd ?block) = Some (finished, current, performed)"
      using executeFdcWorkflow_try_follow [of env "trim (transactionId d)"] by blast
    with None none eq show ?thesis
      by (simp add: executed_in_order_def workflow_def executeFdcWorkflow_def transaction_hooks_def follow_append)
  next
    case (Some x)
    show ?thesis
    proof (cases x)
      case (Inl e)
      obtain finished current performed where
        "follow (Some ([], None, [])) (snd ?block) = Some (finished, current, performed)"
        using executeFdcWorkflow_try_follow [of env "trim (transactionId d)"] by blast
      with None Some Inl eq show ?thesis
        by (simp add: executed_in_order_def workflow_def executeFdcWorkflow_def transaction_hooks_def follow_append
              onWriteError_def)
    next
      case (Inr v)
      obtain attestationData attestationHash where v: "v = (attestationData, attestationHash)"
        by (cases v)
      from Inr Some eq have "fst ?block = Some (Inr v)" by simp
      then obtain performed where
        p: "follow (Some ([], None, [])) (snd ?block)
              = Some ([''prepare-request''], Some ''submit-request'', performed)"
        and t: "list_ex is_transaction performed"
        using executeFdcWorkflow_try_follow [of env "trim (transactionId d)" v] by auto
      show ?thesis
      proof (cases "receipt env")
        case none: None
        with None Some Inr v eq p show ?thesis
          by (simp add: executed_in_order_def workflow_def executeFdcWorkflow_def transaction_hooks_def follow_append)
      next
        case receipt: (Some transactionReceipt)
        have "follow (Some ([''prepare-request''], Some ''submit-request'', performed))
                (onAttestationSuccess env attestationData attestationHash transactionReceipt) \<noteq> None"
          using t by (rule onAttestationSuccess_follow)
        with None Some Inr v eq p receipt show ?thesis
          by (simp add: executed_in_order_def workflow_def executeFdcWorkflow_def transaction_hooks_def follow_append
                del: not_None_eq)
      qed
    qed
  qed
qed

lemmas last_simps =
  run_simps verification_last_Cons verification_last_append verification_last_quiet
  verification_last_verifyPayment
  submit_operations calculateRoundId_operations retrieve_operations

lemma verify_data_last:
  "list_all (\<lambda>x. \<not> is_operation x) rest \<Longrightarrow> verification_last (snd (verify_data env proof) @ rest)"
  by (simp add: verify_data_def last_simps split: option.splits sum.splits)

lemma prepare_proof_last:
  "list_all (\<lambda>x. \<not> is_operation x) rest \<Longrightarrow>
     verification_last (snd (prepare_proof env attestationData roundId) @ rest)"
  by (simp add: prepare_proof_def last_simps verify_data_last split: option.splits sum.splits)

lemma continue_try_last:
  "list_all (\<lambda>x. \<not> is_operation x) rest \<Longrightarrow>
     verification_last (snd (continue_try env attestationData transactionReceipt) @ rest)"
  by (simp add: continue_try_def last_simps prepare_proof_last split: option.splits sum.splits)

lemma continueWorkflowAfterSubmission_last:
  "verification_last (continueWorkflowAfterSubmission env attestationData transactionReceipt)"
  using continue_try_last [of "[]" env attestationData transactionReceipt]
    continue_try_last [of "[SetCurrentAttestationStep [], SetError m]" env attestationData transactionReceipt for m]
  by (auto simp: continueWorkflowAfterSubmission_def split: prod.splits option.splits sum.splits)

lemma executeFdcWorkflow_no_verification:
  "list_all (\<lambda>x. \<not> is_verification x) (executeFdcWorkflow env d)"
  using executeFdcWorkflow_try_no_verification [of env "trim (transactionId d)"]
  by (simp add: executeFdcWorkflow_snd split: option.splits sum.splits)

lemma workflow_verification_last: "verification_last (workflow env d)"
proof -
  have "verification_last (transaction_hooks env d)"
    using continueWorkflowAfterSubmission_last
    by (auto simp: transaction_hooks_def onAttestationSuccess_def onWriteError_def verification_last_Cons
          verification_last_def
          split: option.splits sum.splits prod.splits)
  then show ?thesis
    by (simp add: workflow_def verification_last_append executeFdcWorkflow_no_verification)
qed

lemma status_updates_append: "status_updates (xs @ ys) = status_updates xs @ status_updates ys"
proof (induction xs)
  case Nil
  then show ?case by simp
next
  case (Cons x xs)
  then show ?case by (cases x) simp_all
qed














text \<open>The run in which the verifier, the wallet, the chain and the Data Availability Layer answer.\<close>

lemma happy_fields:
  "addresses happy = Some loaded" "addressError happy = None" "isConnected happy"
  "wagmiPublicClient happy = Some WagmiClient" "verifier happy url = Inr verifier_ok"
  "rpc_read happy = chain" "rpc_block happy c n = Inr (JObj [(''timestamp'', JBig 1658520000)])"
  "wallet happy a args v = Inr (JStr ''0xhash'')"
  "receipt happy = Some (JObj [(''blockNumber'', JBig 123)])"
  "da_replies happy i = [Inr da_pending, Inr da_payment]"
  "toBigInt happy = decimal_BigInt" "previous happy = None"
  by (simp_all add: happy_def)

lemma happy_prepare:
  "fst (prepareRequest_try happy ''4545'')
     = Some (Inr (JObj [(''status'', JStr ''VALID''), (''abiEncodedRequest'', JStr ''0xab'')]))"
  by (simp add: prepareRequest_try_def run_simps happy_fields verifier_ok_def ok_def)

lemma happy_prepare_effects:
  "\<exists>dat. snd (prepareRequest happy ''4545'')
     = [UpdateStepStatus ''prepare-request'' in_progress None None,
        verifier_fetch prepareRequest_url ''4545'',
        UpdateStepStatus ''prepare-request'' completed dat None]"
  by (simp add: prepareRequest_snd happy_prepare)
     (simp add: prepareRequest_try_def run_simps happy_fields verifier_ok_def ok_def)

lemma happy_submit:
  "submitAttestationRequestWithWagmi happy (JStr ''0xab'') (Some loaded)
     = (Inr (JStr ''0xhash''),
        [ReadContract WagmiClient ''0xFee'' ''getRequestFee'' [JStr ''0xab''],
         RequestAttestation ''0xHub'' [JStr ''0xab''] (JBig 1000)])"
  by (simp add: submitAttestationRequestWithWagmi_def requestFee_def clientToUse_def happy_fields
        loaded_def chain_def)

lemma happy_round:
  "calculateRoundId decimal_BigInt (rpc_block happy) chain
     (JObj [(''receipt'', JObj [(''blockNumber'', b)])]) (Some loaded)
     = (Inr 1000,
        [GetBlock SharedClient b,
         ReadContract SharedClient ''0xManager'' ''firstVotingRoundStartTs'' [],
         ReadContract SharedClient ''0xManager'' ''votingEpochDurationSeconds'' [],
         ReadContract SharedClient ''0xManager'' ''getCurrentVotingEpochId'' []])"
  by (simp add: calculateRoundId_def path2_def and_then_def happy_fields loaded_def chain_def
        bigint_div_def Let_def)

lemma happy_retrieve:
  "retrievePaymentDataAndProofWithRetry DA_LAYER_API_URL (JStr ''0xab'') (JNum 1000)
     DA_LAYER_API_KEY None (da_replies happy)
     = (Some (Inr payment_proof),
        [Sleep 30000, Sleep 10000, da_request DA_LAYER_API_URL (JStr ''0xab'') (JNum 1000) DA_LAYER_API_KEY,
         Sleep 10000, da_request DA_LAYER_API_URL (JStr ''0xab'') (JNum 1000) DA_LAYER_API_KEY])"
  by (simp add: retrievePaymentDataAndProofWithRetry_def retrieveDataAndProofWithRetry_def
        retry_from.simps [of _ 10 0] attempt_def happy_fields retrieveDataAndProof_def Let_def
        postRequestToDALayer_def ok_def da_pending_def da_payment_def has_proof_def and_then_def
        payment_proof_def)

lemma happy_verify:
  "verifyPayment decimal_BigInt chain payment_proof (Some loaded)
     = (Inr (JBool True), [ReadContract SharedClient ''0xVerification'' ''verifyPayment'' [payment_argument]])"
proof -
  have "get payment_proof ''response'' = Inr (property payment_proof ''response'')"
    "get payment_proof ''proof'' = Inr (property payment_proof ''proof'')"
    "incomplete payment_proof = Inr False"
    by (simp_all add: payment_proof_def property_def incomplete_def and_then_def)
  then show ?thesis
    by (simp add: verifyPayment_def and_then_def payment_argument_converted loaded_def chain_def)
qed

lemma happy_required:
  "check_required (property (property payment_proof ''response'') ''responseBody'') requiredFields = Inr ()"
  by (simp add: payment_proof_def property_def requiredFields_def and_then_def)

lemma happy_truthy:
  "truthy payment_proof" "truthy (property payment_proof ''response'')"
  "truthy (property payment_proof ''proof'')"
  "get payment_proof ''response'' = Inr (property payment_proof ''response'')"
  by (simp_all add: payment_proof_def property_def)

lemma happy_verify_data:
  "status_updates (snd (verify_data happy payment_proof)) = [(''verify-data'', completed)]"
  "filter is_operation (snd (verify_data happy payment_proof))
     = [ReadContract SharedClient ''0xVerification'' ''verifyPayment'' [payment_argument]]"
  by (simp_all add: verify_data_def run_simps happy_fields happy_truthy happy_required happy_verify)

lemma happy_prepare_proof:
  "status_updates (snd (prepare_proof happy
      (JObj [(''status'', JStr ''VALID''), (''abiEncodedRequest'', JStr ''0xab'')]) 1000))
     = [(''prepare-proof'', in_progress), (''prepare-proof'', completed),
        (''verify-data'', in_progress), (''verify-data'', completed)]"
  "filter is_operation (snd (prepare_proof happy
      (JObj [(''status'', JStr ''VALID''), (''abiEncodedRequest'', JStr ''0xab'')]) 1000))
     = [Sleep 30000, Sleep 10000, da_request DA_LAYER_API_URL (JStr ''0xab'') (JNum 1000) DA_LAYER_API_KEY,
        Sleep 10000, da_request DA_LAYER_API_URL (JStr ''0xab'') (JNum 1000) DA_LAYER_API_KEY,
        ReadContract SharedClient ''0xVerification'' ''verifyPayment'' [payment_argument]]"
proof -
  have p: "property (JObj [(''status'', JStr ''VALID''), (''abiEncodedRequest'', JStr ''0xab'')])
          ''abiEncodedRequest'' = JStr ''0xab''"
    by (simp add: property_def)
  show "status_updates (snd (prepare_proof happy
      (JObj [(''status'', JStr ''VALID''), (''abiEncodedRequest'', JStr ''0xab'')]) 1000))
     = [(''prepare-proof'', in_progress), (''prepare-proof'', completed),
        (''verify-data'', in_progress), (''verify-data'', completed)]"
    by (simp add: prepare_proof_def run_simps p happy_retrieve happy_truthy status_updates_append
          happy_verify_data da_request_def)
  show "filter is_operation (snd (prepare_proof happy
      (JObj [(''status'', JStr ''VALID''), (''abiEncodedRequest'', JStr ''0xab'')]) 1000))
     = [Sleep 30000, Sleep 10000, da_request DA_LAYER_API_URL (JStr ''0xab'') (JNum 1000) DA_LAYER_API_KEY,
        Sleep 10000, da_request DA_LAYER_API_URL (JStr ''0xab'') (JNum 1000) DA_LAYER_API_KEY,
        ReadContract SharedClient ''0xVerification'' ''verifyPayment'' [payment_argument]]"
    by (simp add: prepare_proof_def run_simps p happy_retrieve happy_truthy happy_verify_data
          da_request_def)
qed

lemma happy_continue:
  "status_updates (continueWorkflowAfterSubmission happy
      (Some (JObj [(''status'', JStr ''VALID''), (''abiEncodedRequest'', JStr ''0xab'')]))
      (JObj [(''blockNumber'', b)]))
     = [(''wait-finalization'', in_progress), (''wait-finalization'', in_progress),
        (''wait-finalization'', completed),
        (''prepare-proof'', in_progress), (''prepare-proof'', completed),
        (''verify-data'', in_progress), (''verify-data'', completed)]"
  "filter is_operation (continueWorkflowAfterSubmission happy
      (Some (JObj [(''status'', JStr ''VALID''), (''abiEncodedRequest'', JStr ''0xab'')]))
      (JObj [(''blockNumber'', b)]))
     = [GetBlock SharedClient b,
        ReadContract SharedClient ''0xManager'' ''firstVotingRoundStartTs'' [],
        ReadContract SharedClient ''0xManager'' ''votingEpochDurationSeconds'' [],
        ReadContract SharedClient ''0xManager'' ''getCurrentVotingEpochId'' [],
        Sleep 30000,
        Sleep 30000, Sleep 10000, da_request DA_LAYER_API_URL (JStr ''0xab'') (JNum 1000) DA_LAYER_API_KEY,
        Sleep 10000, da_request DA_LAYER_API_URL (JStr ''0xab'') (JNum 1000) DA_LAYER_API_KEY,
        ReadContract SharedClient ''0xVerification'' ''verifyPayment'' [payment_argument]]"
proof -
  have p: "property (JObj [(''blockNumber'', b)]) ''blockNumber'' = b"
    by (simp add: property_def)
  let ?block = "continue_try happy
      (Some (JObj [(''status'', JStr ''VALID''), (''abiEncodedRequest'', JStr ''0xab'')]))
      (JObj [(''blockNumber'', b)])"
  have u: "status_updates (snd ?block)
     = [(''wait-finalization'', in_progress), (''wait-finalization'', in_progress),
        (''wait-finalization'', completed),
        (''prepare-proof'', in_progress), (''prepare-proof'', completed),
        (''verify-data'', in_progress), (''verify-data'', completed)]"
    by (simp add: continue_try_def run_simps happy_fields p happy_round status_updates_append
          happy_prepare_proof)
  have o: "filter is_operation (snd ?block)
     = [GetBlock SharedClient b,
        ReadContract SharedClient ''0xManager'' ''firstVotingRoundStartTs'' [],
        ReadContract SharedClient ''0xManager'' ''votingEpochDurationSeconds'' [],
        ReadContract SharedClient ''0xManager'' ''getCurrentVotingEpochId'' [],
        Sleep 30000,
        Sleep 30000, Sleep 10000, da_request DA_LAYER_API_URL (JStr ''0xab'') (JNum 1000) DA_LAYER_API_KEY,
        Sleep 10000, da_request DA_LAYER_API_URL (JStr ''0xab'') (JNum 1000) DA_LAYER_API_KEY,
        ReadContract SharedClient ''0xVerification'' ''verifyPayment'' [payment_argument]]"
    by (simp add: continue_try_def run_simps happy_fields p happy_round happy_prepare_proof)
  from u show "status_updates (continueWorkflowAfterSubmission happy
      (Some (JObj [(''status'', JStr ''VALID''), (''abiEncodedRequest'', JStr ''0xab'')]))
      (JObj [(''blockNumber'', b)]))
     = [(''wait-finalization'', in_progress), (''wait-finalization'', in_progress),
        (''wait-finalization'', completed),
        (''prepare-proof'', in_progress), (''prepare-proof'', completed),
        (''verify-data'', in_progress), (''verify-data'', completed)]"
    by (cases ?block)
       (auto simp: continueWorkflowAfterSubmission_def status_updates_append split: option.splits sum.splits)
  from o show "filter is_operation (continueWorkflowAfterSubmission happy
      (Some (JObj [(''status'', JStr ''VALID''), (''abiEncodedRequest'', JStr ''0xab'')]))
      (JObj [(''blockNumber'', b)]))
     = [GetBlock SharedClient b,
        ReadContract SharedClient ''0xManager'' ''firstVotingRoundStartTs'' [],
        ReadContract SharedClient ''0xManager'' ''votingEpochDurationSeconds'' [],
        ReadContract SharedClient ''0xManager'' ''getCurrentVotingEpochId'' [],
        Sleep 30000,
        Sleep 30000, Sleep 10000, da_request DA_LAYER_API_URL (JStr ''0xab'') (JNum 1000) DA_LAYER_API_KEY,
        Sleep 10000, da_request DA_LAYER_API_URL (JStr ''0xab'') (JNum 1000) DA_LAYER_API_KEY,
        ReadContract SharedClient ''0xVerification'' ''verifyPayment'' [payment_argument]]"
    by (cases ?block)
       (auto simp: continueWorkflowAfterSubmission_def status_updates_append split: option.splits sum.splits)
qed

lemma happy_try:
  "executeFdcWorkflow_try happy ''4545''
     = (Some (Inr (JObj [(''status'', JStr ''VALID''), (''abiEncodedRequest'', JStr ''0xab'')],
                   JStr ''0xhash'')),
        snd (prepareRequest happy ''4545'')
        @ [SetCurrentAttestationData (JObj [(''status'', JStr ''VALID''), (''abiEncodedRequest'', JStr ''0xab'')]),
           UpdateStepStatus ''submit-request'' in_progress None None,
           ReadContract WagmiClient ''0xFee'' ''getRequestFee'' [JStr ''0xab''],
           RequestAttestation ''0xHub'' [JStr ''0xab''] (JBig 1000)])"
  by (rule prod_eqI)
     (simp_all add: executeFdcWorkflow_try_fst executeFdcWorkflow_try_snd prepareRequest_snd
        happy_prepare happy_fields happy_submit)

lemma trim_4545: "trim ''4545'' = ''4545''"
  by (simp add: trim_def is_space_def)

lemma happy_workflow:
  "workflow happy \<lparr>transactionId = ''4545''\<rparr>
     = [SetIsLoading True, SetError None, SetSuccess None, ResetSteps]
       @ snd (prepareRequest happy ''4545'')
       @ [SetCurrentAttestationData (JObj [(''status'', JStr ''VALID''), (''abiEncodedRequest'', JStr ''0xab'')]),
          UpdateStepStatus ''submit-request'' in_progress None None,
          ReadContract WagmiClient ''0xFee'' ''getRequestFee'' [JStr ''0xab''],
          RequestAttestation ''0xHub'' [JStr ''0xab''] (JBig 1000)]
       @ onAttestationSuccess happy (JObj [(''status'', JStr ''VALID''), (''abiEncodedRequest'', JStr ''0xab'')])
           (JStr ''0xhash'') (JObj [(''blockNumber'', JBig 123)])"
proof -
  have g: "guard happy = None" by (simp add: guard_def happy_fields)
  then show ?thesis
    by (simp add: workflow_def executeFdcWorkflow_def transaction_hooks_def trim_4545 happy_try happy_fields)
qed

lemma happy_success:
  "status_updates (onAttestationSuccess happy
      (JObj [(''status'', JStr ''VALID''), (''abiEncodedRequest'', JStr ''0xab'')]) hash
      (JObj [(''blockNumber'', b)]))
     = [(''submit-request'', completed),
        (''wait-finalization'', in_progress), (''wait-finalization'', in_progress),
        (''wait-finalization'', completed),
        (''prepare-proof'', in_progress), (''prepare-proof'', completed),
        (''verify-data'', in_progress), (''verify-data'', completed)]"
  "filter is_operation (onAttestationSuccess happy
      (JObj [(''status'', JStr ''VALID''), (''abiEncodedRequest'', JStr ''0xab'')]) hash
      (JObj [(''blockNumber'', b)]))
     = [GetBlock SharedClient b,
        ReadContract SharedClient ''0xManager'' ''firstVotingRoundStartTs'' [],
        ReadContract SharedClient ''0xManager'' ''votingEpochDurationSeconds'' [],
        ReadContract SharedClient ''0xManager'' ''getCurrentVotingEpochId'' [],
        Sleep 30000,
        Sleep 30000, Sleep 10000, da_request DA_LAYER_API_URL (JStr ''0xab'') (JNum 1000) DA_LAYER_API_KEY,
        Sleep 10000, da_request DA_LAYER_API_URL (JStr ''0xab'') (JNum 1000) DA_LAYER_API_KEY,
        ReadContract SharedClient ''0xVerification'' ''verifyPayment'' [payment_argument]]"
  by (simp_all add: onAttestationSuccess_def happy_continue)

lemma happy_run:
  "status_updates (workflow happy \<lparr>transactionId = ''4545''\<rparr>)
       = [(''prepare-request'', in_progress), (''prepare-request'', completed),
          (''submit-request'', in_progress), (''submit-request'', completed),
          (''wait-finalization'', in_progress), (''wait-finalization'', in_progress),
          (''wait-finalization'', completed),
          (''prepare-proof'', in_progress), (''prepare-proof'', completed),
          (''verify-data'', in_progress), (''verify-data'', completed)]"
  "filter is_operation (workflow happy \<lparr>transactionId = ''4545''\<rparr>)
       = [verifier_fetch prepareRequest_url ''4545'',
          ReadContract WagmiClient ''0xFee'' ''getRequestFee'' [JStr ''0xab''],
          RequestAttestation ''0xHub'' [JStr ''0xab''] (JBig 1000),
          GetBlock SharedClient (JBig 123),
          ReadContract SharedClient ''0xManager'' ''firstVotingRoundStartTs'' [],
          ReadContract SharedClient ''0xManager'' ''votingEpochDurationSeconds'' [],
          ReadContract SharedClient ''0xManager'' ''getCurrentVotingEpochId'' [],
          Sleep 30000,
          Sleep 30000, Sleep 10000, da_request DA_LAYER_API_URL (JStr ''0xab'') (JNum 1000) DA_LAYER_API_KEY,
          Sleep 10000, da_request DA_LAYER_API_URL (JStr ''0xab'') (JNum 1000) DA_LAYER_API_KEY,
          ReadContract SharedClient ''0xVerification'' ''verifyPayment'' [payment_argument]]"
proof -
  obtain dat where "snd (prepareRequest happy ''4545'')
     = [UpdateStepStatus ''prepare-request'' in_progress None None,
        verifier_fetch prepareRequest_url ''4545'',
        UpdateStepStatus ''prepare-request'' completed dat None]"
    using happy_prepare_effects by blast
  then show "status_updates (workflow happy \<lparr>transactionId = ''4545''\<rparr>)
       = [(''prepare-request'', in_progress), (''prepare-request'', completed),
          (''submit-request'', in_progress), (''submit-request'', completed),
          (''wait-finalization'', in_progress), (''wait-finalization'', in_progress),
          (''wait-finalization'', completed),
          (''prepare-proof'', in_progress), (''prepare-proof'', completed),
          (''verify-data'', in_progress), (''verify-data'', completed)]"
    and "filter is_operation (workflow happy \<lparr>transactionId = ''4545''\<rparr>)
       = [verifier_fetch prepareRequest_url ''4545'',
          ReadContract WagmiClient ''0xFee'' ''getRequestFee'' [JStr ''0xab''],
          RequestAttestation ''0xHub'' [JStr ''0xab''] (JBig 1000),
          GetBlock SharedClient (JBig 123),
          ReadContract SharedClient ''0xManager'' ''firstVotingRoundStartTs'' [],
          ReadContract SharedClient ''0xManager'' ''votingEpochDurationSeconds'' [],
          ReadContract SharedClient ''0xManager'' ''getCurrentVotingEpochId'' [],
          Sleep 30000,
          Sleep 30000, Sleep 10000, da_request DA_LAYER_API_URL (JStr ''0xab'') (JNum 1000) DA_LAYER_API_KEY,
          Sleep 10000, da_request DA_LAYER_API_URL (JStr ''0xab'') (JNum 1000) DA_LAYER_API_KEY,
          ReadContract SharedClient ''0xVerification'' ''verifyPayment'' [payment_argument]]"
    by (simp_all add: happy_workflow status_updates_append happy_success verifier_fetch_def)
qed


text \<open>
  When the hooks hold no earlier receipt, and when a guard of \<open>executeFdcWorkflow\<close> fails, the
  submission has one run.
\<close>

lemma first_run: "previous env = None \<Longrightarrow> runs env d = {workflow env d}"
  by (simp add: runs_def split: list.splits effect.splits)

lemma guarded_run: "guard env = Some m \<Longrightarrow> runs env d = {[SetError (Some m)]}"
  by (simp add: runs_def workflow_def executeFdcWorkflow_def transaction_hooks_def)

text \<open>
  The order of the workflow on a first submission. For every run that begins while the
  hooks hold no receipt of an earlier confirmed submission, which is the first submission
  and every submission after one that failed or that the wallet rejected, the run is
  \<open>executeFdcWorkflow\<close> followed by the hook of its transaction, and in it the five steps are
  executed in the order prepare, submit, wait for finalization, fetch the proof, verify:
  \<^item> a step is set to \<open>in_progress\<close> only after every earlier step has been set to \<open>completed\<close>;
  \<^item> every timer, request, read and transaction is made while its own step is in progress;
  \<^item> a step is set to \<open>completed\<close> only after it has made its request to the verifier, its
    transaction, its read of the block and its wait of 30 seconds, its request to the Data
    Availability Layer, or its call of the verification contract;
  \<^item> once the verification contract has been called, no further operation follows.
\<close>

theorem first_run_in_order:
  "previous env = None
   \<longrightarrow> runs env d = {workflow env d}
       \<and> (\<forall>t \<in> runs env d. executed_in_order t \<and> verification_last t)"
  by (simp add: first_run workflow_executed_in_order workflow_verification_last)

text \<open>
  The first submission in which the verifier, the wallet, the chain and the Data
  Availability Layer all answer: its one run keeps the order, every step is started and
  completed, and the operations are those of the five steps, one step after the other,
  the call of the verification contract being the last.
\<close>

theorem first_run_in_order_witness:
  "previous happy = None
   \<and> runs happy \<lparr>transactionId = ''4545''\<rparr> = {workflow happy \<lparr>transactionId = ''4545''\<rparr>}
   \<and> executed_in_order (workflow happy \<lparr>transactionId = ''4545''\<rparr>)
   \<and> verification_last (workflow happy \<lparr>transactionId = ''4545''\<rparr>)
   \<and> status_updates (workflow happy \<lparr>transactionId = ''4545''\<rparr>)
       = [(''prepare-request'', in_progress), (''prepare-request'', completed),
          (''submit-request'', in_progress), (''submit-request'', completed),
          (''wait-finalization'', in_progress), (''wait-finalization'', in_progress),
          (''wait-finalization'', completed),
          (''prepare-proof'', in_progress), (''prepare-proof'', completed),
          (''verify-data'', in_progress), (''verify-data'', completed)]
   \<and> filter is_operation (workflow happy \<lparr>transactionId = ''4545''\<rparr>)
       = [verifier_fetch prepareRequest_url ''4545'',
          ReadContract WagmiClient ''0xFee'' ''getRequestFee'' [JStr ''0xab''],
          RequestAttestation ''0xHub'' [JStr ''0xab''] (JBig 1000),
          GetBlock SharedClient (JBig 123),
          ReadContract SharedClient ''0xManager'' ''firstVotingRoundStartTs'' [],
          ReadContract SharedClient ''0xManager'' ''votingEpochDurationSeconds'' [],
          ReadContract SharedClient ''0xManager'' ''getCurrentVotingEpochId'' [],
          Sleep 30000,
          Sleep 30000, Sleep 10000, da_request DA_LAYER_API_URL (JStr ''0xab'') (JNum 1000) DA_LAYER_API_KEY,
          Sleep 10000, da_request DA_LAYER_API_URL (JStr ''0xab'') (JNum 1000) DA_LAYER_API_KEY,
          ReadContract SharedClient ''0xVerification'' ''verifyPayment'' [payment_argument]]"
proof -
  have h: "previous happy = None" by (simp add: happy_fields)
  from first_run_in_order [of happy "\<lparr>transactionId = ''4545''\<rparr>", THEN mp, OF h]
  have "runs happy \<lparr>transactionId = ''4545''\<rparr> = {workflow happy \<lparr>transactionId = ''4545''\<rparr>}"
    and "executed_in_order (workflow happy \<lparr>transactionId = ''4545''\<rparr>)"
    and "verification_last (workflow happy \<lparr>transactionId = ''4545''\<rparr>)"
    by simp_all
  with h happy_run show ?thesis by simp
qed












end
